theory Spec2Isabelle
  imports Complex_Main
begin

section \<open>Deepfake detection and geospatial verification engines\<close>

text \<open>
  A shallow embedding of \<^verbatim>\<open>backend/app/detection_engine.py\<close> and
  \<^verbatim>\<open>backend/app/geospatial_engine.py\<close>.

  Conventions of the model.
  \<^item> A Python \<^verbatim>\<open>float\<close> is a \<^typ>\<open>real\<close>: arithmetic is exact, and a literal such as
    \<^verbatim>\<open>0.7\<close> is the rational 7/10. Where a decimal value of a result matters, the
    arithmetic is repeated in IEEE doubles (the definitions named \<open>_f64\<close>).
  \<^item> A Python \<^verbatim>\<open>dict\<close> with string keys is an association list in insertion order;
    \<^verbatim>\<open>d.get(k, default)\<close> is \<open>dict_get\<close>.
  \<^item> An exception is a value \<open>Inl e\<close> of a sum type; \<^verbatim>\<open>try ... except Exception\<close>
    is a case distinction on the sum.
  \<^item> OpenCV and the file system are inputs: the record \<open>env\<close> holds what
    \<^verbatim>\<open>cv2.VideoCapture\<close>, \<^verbatim>\<open>os.path.exists\<close> and the per-frame image operators return.
  \<^item> Every call of \<^verbatim>\<open>datetime.now()\<close> is an input of its own (seconds, as a real).
\<close>

subsection \<open>Exceptions, dictionaries, numpy reductions\<close>

datatype py_exception =
  ValueError string
  | ZeroDivisionError string
  | CvError string

fun str_exc :: "py_exception \<Rightarrow> string" where
  "str_exc (ValueError m) = m"
| "str_exc (ZeroDivisionError m) = m"
| "str_exc (CvError m) = m"

type_synonym 'v dict = "(string \<times> 'v) list"

definition dict_get :: "'v dict \<Rightarrow> string \<Rightarrow> 'v \<Rightarrow> 'v" where
  \<comment> \<open>\<^verbatim>\<open>d.get(k, default)\<close>\<close>
  "dict_get d k dflt = (case map_of d k of None \<Rightarrow> dflt | Some v \<Rightarrow> v)"

definition dict_index :: "'v dict \<Rightarrow> string \<Rightarrow> 'v" where
  \<comment> \<open>\<^verbatim>\<open>d[k]\<close>, used only where the key is one the dictionary literal holds.\<close>
  "dict_index d k = the (map_of d k)"

definition np_mean :: "real list \<Rightarrow> real" where
  \<comment> \<open>\<^verbatim>\<open>np.mean\<close> of a non-empty sequence. On the empty sequence numpy returns nan (with a
      warning); every caller below decides emptiness before it uses the value.\<close>
  "np_mean xs = sum_list xs / real (length xs)"

definition np_var :: "real list \<Rightarrow> real" where
  \<comment> \<open>\<^verbatim>\<open>np.var\<close>: the population variance.\<close>
  "np_var xs = np_mean (map (\<lambda>x. (x - np_mean xs)\<^sup>2) xs)"

definition np_max :: "real list \<Rightarrow> py_exception + real" where
  \<comment> \<open>\<^verbatim>\<open>np.max\<close> raises ValueError on a zero-size array.\<close>
  "np_max xs =
     (if xs = [] then
        Inl (ValueError ''zero-size array to reduction operation maximum which has no identity'')
      else Inr (Max (set xs)))"

subsection \<open>The video decoder and the environment\<close>

text \<open>
  A \<^verbatim>\<open>cv2.VideoCapture\<close> object: the value of \<^verbatim>\<open>CAP_PROP_FRAME_COUNT\<close> (already
  converted by \<^verbatim>\<open>int\<close>) and the results of the successive \<^verbatim>\<open>cap.read()\<close> calls still to
  come, \<open>None\<close> standing for \<^verbatim>\<open>(False, None)\<close>. Reading past the end fails as well.
\<close>

record 'f capture =
  prop_frame_count :: int
  stream :: "'f option list"

definition cap_read :: "'f capture \<Rightarrow> 'f option \<times> 'f capture" where
  "cap_read cap =
     (case stream cap of
        [] \<Rightarrow> (None, cap)
      | r # rs \<Rightarrow> (r, cap\<lparr>stream := rs\<rparr>))"

definition unopened_capture :: "'f capture" where
  \<comment> \<open>What OpenCV hands back for a file it cannot open: every property reads 0 and every
      read fails.\<close>
  "unopened_capture = \<lparr>prop_frame_count = 0, stream = []\<rparr>"

type_synonym rect = "int \<times> int \<times> int \<times> int"

record 'f env =
  VideoCapture :: "string \<Rightarrow> py_exception + 'f capture"
  path_exists :: "string \<Rightarrow> bool"
  detectMultiScale :: "'f \<Rightarrow> rect list"
  mean_l_channel :: "'f \<Rightarrow> real"
  highpass_std :: "'f \<Rightarrow> real"
  farneback_mean_magnitude :: "'f \<Rightarrow> 'f \<Rightarrow> real"

subsection \<open>Frame sampling\<close>

text \<open>
  The \<^verbatim>\<open>while\<close> loop of \<^verbatim>\<open>extract_frames\<close> and of \<^verbatim>\<open>_extract_sample_frames\<close> (the two are
  the same text): the state is the capture, \<^verbatim>\<open>frame_count\<close> and \<^verbatim>\<open>frames\<close>.
\<close>

function sample_loop ::
  "int \<Rightarrow> int \<Rightarrow> int \<Rightarrow> 'f capture \<Rightarrow> int \<Rightarrow> 'f list \<Rightarrow> 'f list" where
  "sample_loop max_frames total_frames frame_interval cap frame_count frames =
     (if int (length frames) < max_frames \<and> frame_count < total_frames then
        (case cap_read cap of
           (ret, cap') \<Rightarrow>
             sample_loop max_frames total_frames frame_interval cap' (frame_count + 1)
               (case ret of
                  Some frame \<Rightarrow>
                    if frame_count mod frame_interval = 0 then frames @ [frame] else frames
                | None \<Rightarrow> frames))
      else frames)"
  by pat_completeness auto
termination
  by (relation "measure (\<lambda>(m, total, i, cap, frame_count, frames). nat (total - frame_count))")
    auto

declare sample_loop.simps [simp del]

definition floordiv :: "int \<Rightarrow> int \<Rightarrow> py_exception + int" where
  \<comment> \<open>Python's \<^verbatim>\<open>//\<close> on integers.\<close>
  "floordiv a b =
     (if b = 0 then Inl (ZeroDivisionError ''integer division or modulo by zero'')
      else Inr (a div b))"

definition sample_frames :: "'f capture \<Rightarrow> int \<Rightarrow> py_exception + 'f list" where
  \<comment> \<open>From \<^verbatim>\<open>total_frames = ...\<close> to the end of the loop.\<close>
  "sample_frames cap max_frames =
     (let total_frames = prop_frame_count cap in
      case floordiv total_frames max_frames of
        Inl e \<Rightarrow> Inl e
      | Inr q \<Rightarrow>
          let frame_interval = max 1 q in
          Inr (sample_loop max_frames total_frames frame_interval cap 0 []))"

definition extract_frames :: "'f env \<Rightarrow> string \<Rightarrow> int \<Rightarrow> py_exception + 'f list" where
  "extract_frames env video_path max_frames =
     (case VideoCapture env video_path of
        Inl e \<Rightarrow> Inl e
      | Inr cap \<Rightarrow> sample_frames cap max_frames)"

subsection \<open>The deepfake signal analyzers\<close>

type_synonym report = "real dict"

definition detect_faces :: "'f env \<Rightarrow> 'f \<Rightarrow> rect list" where
  "detect_faces env frame = detectMultiScale env frame"

definition analyze_face_consistency :: "'f env \<Rightarrow> 'f list \<Rightarrow> report" where
  "analyze_face_consistency env frames =
     (if length frames < 2 then
        [(''consistency_score'', 0.0), (''face_count_variance'', 0.0)]
      else
        let face_counts = map (\<lambda>frame. length (detect_faces env frame)) frames;
            face_count_variance =
              (if length face_counts > 1 then np_var (map real face_counts) else 0);
            consistency_score = 1.0 / (1.0 + face_count_variance)
        in [(''consistency_score'', consistency_score),
            (''face_count_variance'', face_count_variance),
            (''total_faces_detected'', real (sum_list face_counts))])"

definition analyze_lighting_consistency :: "'f env \<Rightarrow> 'f list \<Rightarrow> report" where
  "analyze_lighting_consistency env frames =
     (if length frames < 2 then
        [(''lighting_variance'', 0.0), (''shadow_consistency'', 0.0)]
      else
        let lighting_values = map (mean_l_channel env) frames;
            lighting_variance =
              (if length lighting_values > 1 then np_var lighting_values else 0);
            shadow_consistency = 1.0 / (1.0 + lighting_variance / 100.0)
        in [(''lighting_variance'', lighting_variance),
            (''shadow_consistency'', shadow_consistency),
            (''mean_lighting'', np_mean lighting_values)])"

text \<open>
  \<^verbatim>\<open>analyze_compression_artifacts\<close> has no guard on the number of frames. Its result
  dictionary evaluates \<^verbatim>\<open>np.mean\<close>, then the variance, then \<^verbatim>\<open>np.max\<close>; on an empty list
  the mean is nan (no exception) and \<^verbatim>\<open>np.max\<close> raises, so no dictionary is built.
\<close>

definition analyze_compression_artifacts :: "'f env \<Rightarrow> 'f list \<Rightarrow> py_exception + report" where
  "analyze_compression_artifacts env frames =
     (let artifact_scores = map (\<lambda>frame. highpass_std env frame / 255.0) frames in
      case np_max artifact_scores of
        Inl e \<Rightarrow> Inl e
      | Inr max_artifact_score \<Rightarrow>
          Inr [(''mean_artifact_score'', np_mean artifact_scores),
               (''artifact_variance'',
                  if length artifact_scores > 1 then np_var artifact_scores else 0.0),
               (''max_artifact_score'', max_artifact_score)])"

definition analyze_temporal_consistency :: "'f env \<Rightarrow> 'f list \<Rightarrow> report" where
  "analyze_temporal_consistency env frames =
     (if length frames < 2 then
        [(''motion_consistency'', 0.0), (''temporal_variance'', 0.0)]
      else
        let motion_scores =
              map (\<lambda>i. farneback_mean_magnitude env (frames ! i) (frames ! (i + 1)))
                [0 ..< length frames - 1];
            motion_variance = (if length motion_scores > 1 then np_var motion_scores else 0);
            motion_consistency = 1.0 / (1.0 + motion_variance / 100.0)
        in [(''motion_consistency'', motion_consistency),
            (''temporal_variance'', motion_variance),
            (''mean_motion'', if motion_scores \<noteq> [] then np_mean motion_scores else 0.0)])"

definition detect_audio_manipulation :: "string \<Rightarrow> report" where
  \<comment> \<open>The \<^verbatim>\<open>try\<close> body is a dictionary literal; nothing in it raises, so the handler's
      neutral report is never returned.\<close>
  "detect_audio_manipulation audio_path =
     [(''audio_manipulation_score'', 0.1),
      (''voice_consistency'', 0.9),
      (''audio_quality'', 0.8)]"

subsection \<open>Deepfake fusion\<close>

definition weights :: "real dict" where
  "weights =
     [(''face_consistency'', 0.3),
      (''lighting_consistency'', 0.2),
      (''compression_artifacts'', 0.25),
      (''temporal_consistency'', 0.15),
      (''audio_manipulation'', 0.1)]"

definition scores :: "report dict \<Rightarrow> real dict" where
  "scores analysis_results =
     [(''face_consistency'',
         dict_get (dict_get analysis_results ''face_consistency'' []) ''consistency_score'' 0.5),
      (''lighting_consistency'',
         dict_get (dict_get analysis_results ''lighting_consistency'' []) ''shadow_consistency'' 0.5),
      (''compression_artifacts'',
         1.0 - dict_get (dict_get analysis_results ''compression_artifacts'' [])
                 ''mean_artifact_score'' 0.5),
      (''temporal_consistency'',
         dict_get (dict_get analysis_results ''temporal_consistency'' []) ''motion_consistency'' 0.5),
      (''audio_manipulation'',
         1.0 - dict_get (dict_get analysis_results ''audio_manipulation'' [])
                 ''audio_manipulation_score'' 0.5)]"

definition calculate_deepfake_score :: "report dict \<Rightarrow> real" where
  "calculate_deepfake_score analysis_results =
     (let weighted_score =
            sum_list (map (\<lambda>key. dict_index weights key * dict_index (scores analysis_results) key)
                        (map fst weights));
          deepfake_probability = 1.0 - weighted_score
      in deepfake_probability)"

definition classification_of :: "real \<Rightarrow> string" where
  \<comment> \<open>The \<^verbatim>\<open>if/elif/else\<close> of \<^verbatim>\<open>analyze_video\<close> that determines the classification.\<close>
  "classification_of deepfake_score =
     (if deepfake_score > 0.7 then ''deepfake''
      else if deepfake_score < 0.3 then ''real''
      else ''uncertain'')"

definition confidence_of :: "string \<Rightarrow> real \<Rightarrow> real" where
  \<comment> \<open>\<^verbatim>\<open>1.0 - deepfake_score if classification == "real" else deepfake_score\<close>\<close>
  "confidence_of classification deepfake_score =
     (if classification = ''real'' then 1.0 - deepfake_score else deepfake_score)"

definition generate_heatmap_frames :: "'f list \<Rightarrow> report dict \<Rightarrow> real list" where
  "generate_heatmap_frames frames analysis_results =
     (if length frames = 0 then []
      else map real (filter (\<lambda>i. i mod 3 = 0) [0 ..< min 10 (length frames)]))"

text \<open>
  The result dictionary of \<^verbatim>\<open>analyze_video\<close>. The keys \<^verbatim>\<open>frames_analyzed\<close> and \<^verbatim>\<open>error\<close>
  are written by one \<^verbatim>\<open>return\<close> each; \<open>None\<close> says that the key is not in the dictionary.
\<close>

record deepfake_result =
  classification :: string
  confidence :: real
  deepfake_score :: real
  manipulation_indicators :: "report dict"
  heatmap_frames :: "real list"
  processing_time :: real
  model_version :: string
  frames_analyzed :: "nat option"
  error :: "string option"

definition audio_supplied :: "'f env \<Rightarrow> string option \<Rightarrow> bool" where
  \<comment> \<open>\<^verbatim>\<open>audio_path and os.path.exists(audio_path)\<close>: None and the empty string are falsy.\<close>
  "audio_supplied env audio_path =
     (case audio_path of None \<Rightarrow> False | Some a \<Rightarrow> a \<noteq> [] \<and> path_exists env a)"

definition analyze_video_try ::
  "'f env \<Rightarrow> real \<Rightarrow> real \<Rightarrow> string \<Rightarrow> string option \<Rightarrow> py_exception + deepfake_result" where
  \<comment> \<open>The \<^verbatim>\<open>try\<close> block; \<open>start_time\<close> and \<open>end_time\<close> are the two clock readings.\<close>
  "analyze_video_try env start_time end_time video_path audio_path =
     (case extract_frames env video_path 100 of
        Inl e \<Rightarrow> Inl e
      | Inr frames \<Rightarrow>
          let face_analysis = analyze_face_consistency env frames;
              lighting_analysis = analyze_lighting_consistency env frames
          in case analyze_compression_artifacts env frames of
               Inl e \<Rightarrow> Inl e
             | Inr compression_analysis \<Rightarrow>
                 let temporal_analysis = analyze_temporal_consistency env frames;
                     audio_analysis =
                       (if audio_supplied env audio_path
                        then detect_audio_manipulation (the audio_path) else []);
                     analysis_results =
                       [(''face_consistency'', face_analysis),
                        (''lighting_consistency'', lighting_analysis),
                        (''compression_artifacts'', compression_analysis),
                        (''temporal_consistency'', temporal_analysis),
                        (''audio_manipulation'', audio_analysis)];
                     deepfake_score = calculate_deepfake_score analysis_results;
                     classification = classification_of deepfake_score;
                     confidence = confidence_of classification deepfake_score;
                     processing_time = end_time - start_time
                 in Inr \<lparr>classification = classification,
                         confidence = confidence,
                         deepfake_score = deepfake_score,
                         manipulation_indicators = analysis_results,
                         heatmap_frames = generate_heatmap_frames frames analysis_results,
                         processing_time = processing_time,
                         model_version = ''1.0.0'',
                         frames_analyzed = Some (length frames),
                         error = None\<rparr>)"

definition analyze_video_except :: "py_exception \<Rightarrow> deepfake_result" where
  \<comment> \<open>The \<^verbatim>\<open>except Exception as e\<close> handler.\<close>
  "analyze_video_except e =
     \<lparr>classification = ''error'',
      confidence = 0.0,
      deepfake_score = 0.5,
      manipulation_indicators = [],
      heatmap_frames = [],
      processing_time = 0.0,
      model_version = ''1.0.0'',
      frames_analyzed = None,
      error = Some (str_exc e)\<rparr>"

definition analyze_video ::
  "'f env \<Rightarrow> real \<Rightarrow> real \<Rightarrow> string \<Rightarrow> string option \<Rightarrow> deepfake_result" where
  "analyze_video env start_time end_time video_path audio_path =
     (case analyze_video_try env start_time end_time video_path audio_path of
        Inl e \<Rightarrow> analyze_video_except e
      | Inr result \<Rightarrow> result)"

subsection \<open>The geospatial signal analyzers\<close>

record GPSMetadata =
  latitude :: real
  longitude :: real
  altitude :: "real option"
  timestamp :: "real option"
  accuracy :: "real option"
  satellites :: "int option"
  device_info :: "string option"

definition extract_gps_metadata :: "'f env \<Rightarrow> real \<Rightarrow> string \<Rightarrow> GPSMetadata option" where
  \<comment> \<open>\<open>now\<close> is the reading of \<^verbatim>\<open>datetime.now()\<close> inside the function. The frame rate,
      frame count and duration that the body reads are not used afterwards.\<close>
  "extract_gps_metadata env now video_path =
     (case VideoCapture env video_path of
        Inl e \<Rightarrow> None
      | Inr cap \<Rightarrow>
          Some \<lparr>latitude = 37.7749,
                longitude = - 122.4194,
                altitude = Some 10.0,
                timestamp = Some now,
                accuracy = Some 5.0,
                satellites = Some 8,
                device_info = Some ''iPhone 12''\<rparr>)"

definition extract_sample_frames :: "'f env \<Rightarrow> string \<Rightarrow> int \<Rightarrow> 'f list" where
  \<comment> \<open>\<^verbatim>\<open>_extract_sample_frames\<close>: the sampler inside \<^verbatim>\<open>try\<close>; an exception is raised
      only before the first frame is kept, and leaves \<^verbatim>\<open>frames\<close> empty.\<close>
  "extract_sample_frames env video_path max_frames =
     (case VideoCapture env video_path of
        Inl e \<Rightarrow> []
      | Inr cap \<Rightarrow>
          (case sample_frames cap max_frames of
             Inl e \<Rightarrow> []
           | Inr frames \<Rightarrow> frames))"

definition analyze_location_indicators :: "'f list \<Rightarrow> real dict" where
  "analyze_location_indicators frames =
     (if frames = [] then
        [(''indicators_found'', 0.0), (''consistency'', 0.0)]
      else
        [(''indicators_found'', 0.6),
         (''consistency'', 0.8),
         (''landmark_detection'', 0.7),
         (''text_recognition'', 0.5),
         (''weather_consistency'', 0.9)])"

definition location_weights :: "real dict" where
  "location_weights =
     [(''indicators_found'', 0.3),
      (''consistency'', 0.4),
      (''landmark_detection'', 0.2),
      (''text_recognition'', 0.1)]"

fun location_loop :: "real dict \<Rightarrow> real dict \<Rightarrow> real \<times> real \<Rightarrow> real \<times> real" where
  \<comment> \<open>The \<^verbatim>\<open>for key, weight in weights.items()\<close> loop; the state is
      \<^verbatim>\<open>(total_score, total_weight)\<close>.\<close>
  "location_loop indicators [] (total_score, total_weight) = (total_score, total_weight)"
| "location_loop indicators ((key, weight) # rest) (total_score, total_weight) =
     (case map_of indicators key of
        Some v \<Rightarrow>
          location_loop indicators rest (total_score + v * weight, total_weight + weight)
      | None \<Rightarrow> location_loop indicators rest (total_score, total_weight))"

definition calculate_location_consistency :: "real dict \<Rightarrow> real" where
  "calculate_location_consistency indicators =
     (if indicators = [] then 0.0
      else
        case location_loop indicators location_weights (0.0, 0.0) of
          (total_score, total_weight) \<Rightarrow>
            if total_weight > 0 then total_score / total_weight else 0.0)"

record location_report =
  consistency_score :: real
  location_indicators :: "real dict"
  verification_method :: string
  location_error :: "string option"

definition verify_location_consistency ::
  "'f env \<Rightarrow> GPSMetadata \<Rightarrow> string \<Rightarrow> location_report" where
  \<comment> \<open>None of the three calls in the \<^verbatim>\<open>try\<close> body raises, so the handler's report (score
      0.5, method \<^verbatim>\<open>error\<close>) is never returned.\<close>
  "verify_location_consistency env gps_data video_path =
     (let frames = extract_sample_frames env video_path 20;
          indicators = analyze_location_indicators frames;
          score = calculate_location_consistency indicators
      in \<lparr>consistency_score = score,
          location_indicators = indicators,
          verification_method = ''visual_analysis'',
          location_error = None\<rparr>)"

record manipulation_report =
  manipulation_scores :: "real dict"
  overall_manipulation_probability :: real
  suspicious_patterns :: "string list"

definition truthy_float :: "real option \<Rightarrow> bool" where
  \<comment> \<open>\<^verbatim>\<open>if x:\<close> on an optional float: None and 0.0 are falsy.\<close>
  "truthy_float x = (case x of None \<Rightarrow> False | Some v \<Rightarrow> v \<noteq> 0)"

definition truthy_int :: "int option \<Rightarrow> bool" where
  \<comment> \<open>\<^verbatim>\<open>if x:\<close> on an optional int: None and 0 are falsy.\<close>
  "truthy_int x = (case x of None \<Rightarrow> False | Some v \<Rightarrow> v \<noteq> 0)"

definition detect_gps_manipulation :: "real \<Rightarrow> GPSMetadata \<Rightarrow> manipulation_report" where
  \<comment> \<open>\<open>now\<close> is the reading of \<^verbatim>\<open>datetime.now()\<close> in the timestamp check. A datetime
      object is always truthy, so \<^verbatim>\<open>if gps_data.timestamp:\<close> asks whether it is None.\<close>
  "detect_gps_manipulation now gps_data =
     (let gps_jump = 0.1;
          timestamp_mismatch =
            (case timestamp gps_data of
               Some ts \<Rightarrow>
                 let time_diff = \<bar>now - ts\<bar> in
                 if time_diff > 86400 then 0.8 else 0.1
             | None \<Rightarrow> 0.5);
          accuracy_anomaly =
            (if truthy_float (accuracy gps_data) then
               if the (accuracy gps_data) < 1.0 then 0.7
               else if the (accuracy gps_data) > 50.0 then 0.6
               else 0.1
             else 0.5);
          satellite_anomaly =
            (if truthy_int (satellites gps_data) then
               if the (satellites gps_data) < 4 then 0.8
               else if the (satellites gps_data) > 12 then 0.6
               else 0.1
             else 0.5);
          m_scores =
            [(''gps_jump'', gps_jump),
             (''timestamp_mismatch'', timestamp_mismatch),
             (''accuracy_anomaly'', accuracy_anomaly),
             (''satellite_anomaly'', satellite_anomaly)];
          total_score = sum_list (map snd m_scores);
          avg_score = total_score / real (length m_scores)
      in \<lparr>manipulation_scores = m_scores,
          overall_manipulation_probability = avg_score,
          suspicious_patterns = map fst (filter (\<lambda>(k, v). v > 0.5) m_scores)\<rparr>)"

subsection \<open>Geospatial fusion\<close>

definition verification_confidence_of :: "real \<Rightarrow> real \<Rightarrow> real" where
  \<comment> \<open>\<^verbatim>\<open>(consistency_score + (1 - manipulation_probability)) / 2\<close>\<close>
  "verification_confidence_of score manipulation_probability =
     (score + (1 - manipulation_probability)) / 2"

definition verification_status_of :: "real \<Rightarrow> string" where
  \<comment> \<open>The \<^verbatim>\<open>if/elif/else\<close> that determines the verification status.\<close>
  "verification_status_of conf =
     (if conf > 0.7 then ''verified''
      else if conf < 0.3 then ''suspicious''
      else ''uncertain'')"

text \<open>
  The result dictionary of \<^verbatim>\<open>verify_geospatial_authenticity\<close>. Only
  \<^verbatim>\<open>verification_status\<close> and \<^verbatim>\<open>processing_time\<close> are written by all three \<^verbatim>\<open>return\<close>
  statements; for the other keys \<open>None\<close> says that the key is not in the dictionary.
\<close>

record geo_result =
  verification_status :: string
  verification_confidence :: "real option"
  gps_metadata :: "GPSMetadata option"
  location_consistency :: "location_report option"
  gps_manipulation :: "manipulation_report option"
  geo_processing_time :: real
  verification_methods :: "string list option"
  geo_error :: "string option"

record clock =
  t_start :: real
  t_gps :: real
  t_detect :: real
  t_end :: real

datatype call =
  Call_extract_gps_metadata
  | Call_verify_location_consistency
  | Call_detect_gps_manipulation

definition verify_try ::
  "'f env \<Rightarrow> clock \<Rightarrow> string \<Rightarrow> call list \<times> (py_exception + geo_result)" where
  \<comment> \<open>The \<^verbatim>\<open>try\<close> block, together with the list of the engine's methods it has called.\<close>
  "verify_try env clk video_path =
     (case extract_gps_metadata env (t_gps clk) video_path of
        None \<Rightarrow>
          ([Call_extract_gps_metadata],
           Inr \<lparr>verification_status = ''failed'',
                verification_confidence = None,
                gps_metadata = None,
                location_consistency = None,
                gps_manipulation = None,
                geo_processing_time = 0.0,
                verification_methods = None,
                geo_error = Some ''No GPS metadata found''\<rparr>)
      | Some gps_data \<Rightarrow>
          let loc = verify_location_consistency env gps_data video_path;
              man = detect_gps_manipulation (t_detect clk) gps_data;
              score = consistency_score loc;
              manipulation_probability = overall_manipulation_probability man;
              conf = verification_confidence_of score manipulation_probability;
              status = verification_status_of conf
          in ([Call_extract_gps_metadata, Call_verify_location_consistency,
               Call_detect_gps_manipulation],
              Inr \<lparr>verification_status = status,
                   verification_confidence = Some conf,
                   gps_metadata = Some gps_data,
                   location_consistency = Some loc,
                   gps_manipulation = Some man,
                   geo_processing_time = t_end clk - t_start clk,
                   verification_methods = Some [''gps_analysis'', ''visual_analysis''],
                   geo_error = None\<rparr>))"

definition verify_except :: "py_exception \<Rightarrow> geo_result" where
  \<comment> \<open>The \<^verbatim>\<open>except Exception as e\<close> handler.\<close>
  "verify_except e =
     \<lparr>verification_status = ''error'',
      verification_confidence = Some 0.0,
      gps_metadata = None,
      location_consistency = None,
      gps_manipulation = None,
      geo_processing_time = 0.0,
      verification_methods = None,
      geo_error = Some (str_exc e)\<rparr>"

definition verify_geospatial_authenticity :: "'f env \<Rightarrow> clock \<Rightarrow> string \<Rightarrow> geo_result" where
  "verify_geospatial_authenticity env clk video_path =
     (case snd (verify_try env clk video_path) of
        Inl e \<Rightarrow> verify_except e
      | Inr result \<Rightarrow> result)"

definition verify_calls :: "'f env \<Rightarrow> clock \<Rightarrow> string \<Rightarrow> call list" where
  "verify_calls env clk video_path = fst (verify_try env clk video_path)"

subsection \<open>Reference definitions\<close>

text \<open>
  The fusion formula and the sampling rule as the specification words them, to be compared
  with the definitions above.
\<close>

definition metric :: "report dict \<Rightarrow> string \<Rightarrow> string \<Rightarrow> real" where
  \<comment> \<open>A metric of a signal report, replaced by 0.5 when the report or the metric is missing.\<close>
  "metric analysis_results signal name =
     (case map_of analysis_results signal of
        None \<Rightarrow> 0.5
      | Some rep \<Rightarrow> (case map_of rep name of None \<Rightarrow> 0.5 | Some v \<Rightarrow> v))"

definition spec_weighted_score :: "report dict \<Rightarrow> real" where
  "spec_weighted_score r =
     0.30 * metric r ''face_consistency'' ''consistency_score''
     + 0.20 * metric r ''lighting_consistency'' ''shadow_consistency''
     + 0.25 * (1 - metric r ''compression_artifacts'' ''mean_artifact_score'')
     + 0.15 * metric r ''temporal_consistency'' ''motion_consistency''
     + 0.10 * (1 - metric r ''audio_manipulation'' ''audio_manipulation_score'')"

definition keep_at :: "int \<Rightarrow> nat \<times> 'f option \<Rightarrow> 'f list" where
  \<comment> \<open>The read at ordinal position \<open>i\<close> is kept when it decoded a frame and \<open>i\<close> is a
      multiple of the stride.\<close>
  "keep_at stride =
     (\<lambda>(i, r). case r of
        Some frame \<Rightarrow> if int i mod stride = 0 then [frame] else []
      | None \<Rightarrow> [])"

definition spec_sample :: "'f capture \<Rightarrow> int \<Rightarrow> 'f list" where
  "spec_sample cap max_frames =
     (let T = prop_frame_count cap;
          stride = max 1 (T div max_frames)
      in take (nat max_frames)
           (concat (map (keep_at stride) (zip [0 ..< nat T] (stream cap)))))"

subsection \<open>Concrete inputs\<close>

definition clip :: "nat capture" where
  \<comment> \<open>Three decodable frames, named 0, 1 and 2.\<close>
  "clip = \<lparr>prop_frame_count = 3, stream = [Some 0, Some 1, Some 2]\<rparr>"

definition long_clip :: "nat capture" where
  \<comment> \<open>Seven reads, the third of which fails.\<close>
  "long_clip =
     \<lparr>prop_frame_count = 7,
      stream = [Some 0, Some 1, None, Some 3, Some 4, Some 5, Some 6]\<rparr>"

definition studio_env :: "nat env" where
  \<comment> \<open>A still scene: one face in every frame, constant lightness, no motion.\<close>
  "studio_env =
     \<lparr>VideoCapture =
        (\<lambda>p. if p = ''clip.mp4'' then Inr clip
             else if p = ''long.mp4'' then Inr long_clip
             else if p = ''stream://bad'' then Inl (CvError ''cannot open'')
             else Inr unopened_capture),
      path_exists = (\<lambda>p. p = ''clip.mp4'' \<or> p = ''voice.wav''),
      detectMultiScale = (\<lambda>f. [(10, 10, 64, 64)]),
      mean_l_channel = (\<lambda>f. 120),
      highpass_std = (\<lambda>f. 51),
      farneback_mean_magnitude = (\<lambda>f g. 0)\<rparr>"

definition noon :: clock where
  "noon = \<lparr>t_start = 43200, t_gps = 43201, t_detect = 43202, t_end = 43203\<rparr>"

definition still_indicators :: "report dict" where
  "still_indicators =
     [(''face_consistency'',
         [(''consistency_score'', 1), (''face_count_variance'', 0),
          (''total_faces_detected'', 3)]),
      (''lighting_consistency'',
         [(''lighting_variance'', 0), (''shadow_consistency'', 1), (''mean_lighting'', 120)]),
      (''compression_artifacts'',
         [(''mean_artifact_score'', 0.2), (''artifact_variance'', 0),
          (''max_artifact_score'', 0.2)]),
      (''temporal_consistency'',
         [(''motion_consistency'', 1), (''temporal_variance'', 0), (''mean_motion'', 0)]),
      (''audio_manipulation'', [])]"

definition still_result :: deepfake_result where
  "still_result =
     \<lparr>classification = ''real'',
      confidence = 0.9,
      deepfake_score = 0.1,
      manipulation_indicators = still_indicators,
      heatmap_frames = [0],
      processing_time = 2,
      model_version = ''1.0.0'',
      frames_analyzed = Some 3,
      error = None\<rparr>"

definition stub_metadata :: "real \<Rightarrow> GPSMetadata" where
  \<comment> \<open>The metadata that \<^verbatim>\<open>extract_gps_metadata\<close> builds, stamped \<open>now\<close>.\<close>
  "stub_metadata now =
     \<lparr>latitude = 37.7749, longitude = - 122.4194, altitude = Some 10.0,
      timestamp = Some now, accuracy = Some 5.0, satellites = Some 8,
      device_info = Some ''iPhone 12''\<rparr>"

definition failed_result :: geo_result where
  \<comment> \<open>The dictionary returned when no GPS metadata was found.\<close>
  "failed_result =
     \<lparr>verification_status = ''failed'',
      verification_confidence = None,
      gps_metadata = None,
      location_consistency = None,
      gps_manipulation = None,
      geo_processing_time = 0,
      verification_methods = None,
      geo_error = Some ''No GPS metadata found''\<rparr>"

definition zero_fix :: "real \<Rightarrow> GPSMetadata" where
  \<comment> \<open>A fix that reports an accuracy of 0.0 m and 0 satellites.\<close>
  "zero_fix now =
     \<lparr>latitude = 37.7749, longitude = - 122.4194, altitude = None,
      timestamp = Some now, accuracy = Some 0.0, satellites = Some 0,
      device_info = None\<rparr>"

definition scenario_fix :: "real \<Rightarrow> GPSMetadata" where
  \<comment> \<open>The specification's scenario: accuracy 0.5 m, 3 satellites, timestamp now.\<close>
  "scenario_fix now =
     \<lparr>latitude = 37.7749, longitude = - 122.4194, altitude = None,
      timestamp = Some now, accuracy = Some 0.5, satellites = Some 3,
      device_info = None\<rparr>"

subsection \<open>Double-precision arithmetic\<close>

text \<open>
  The definitions above compute in exact reals. Where a decimal value of a result is at
  stake, the arithmetic of the source is repeated here in IEEE 754 binary64: a double is the
  rational it denotes, and every operation rounds its exact result to the nearest double,
  ties to even (\<open>fl\<close>). Overflow and subnormal numbers are not modelled; every value below
  lies between \<open>2\<^sup>-\<^sup>7\<close> and 2.
\<close>

function bit_length :: "int \<Rightarrow> int" where
  "bit_length n = (if n \<le> 0 then 0 else bit_length (n div 2) + 1)"
  by pat_completeness auto
termination
  by (relation "measure nat") auto

declare bit_length.simps [simp del]

definition pow2 :: "int \<Rightarrow> rat" where
  "pow2 e = (if 0 \<le> e then 2 ^ nat e else 1 / 2 ^ nat (- e))"

definition binade :: "rat \<Rightarrow> int" where
  \<comment> \<open>The exponent \<open>e\<close> with \<open>2\<^sup>e \<le> \<bar>x\<bar> < 2\<^sup>e\<^sup>+\<^sup>1\<close>, for \<open>x \<noteq> 0\<close>.\<close>
  "binade x =
     (case quotient_of \<bar>x\<bar> of
        (p, q) \<Rightarrow>
          let e = bit_length p - bit_length q
          in if pow2 e \<le> \<bar>x\<bar> then e else e - 1)"

definition round_half_even :: "rat \<Rightarrow> int" where
  "round_half_even x =
     (let n = \<lfloor>x\<rfloor>; d = x - of_int n
      in if d < 1 / 2 then n
         else if 1 / 2 < d then n + 1
         else if even n then n else n + 1)"

definition fl :: "rat \<Rightarrow> rat" where
  \<comment> \<open>The double nearest to \<open>x\<close>: 53 significant bits. A decimal literal \<^verbatim>\<open>0.3\<close> of the
      source is \<open>fl (3 / 10)\<close>.\<close>
  "fl x =
     (if x = 0 then 0
      else let s = pow2 (binade x - 52) in of_int (round_half_even (x / s)) * s)"

definition f64_add :: "rat \<Rightarrow> rat \<Rightarrow> rat" where
  "f64_add a b = fl (a + b)"

definition f64_sub :: "rat \<Rightarrow> rat \<Rightarrow> rat" where
  "f64_sub a b = fl (a - b)"

definition f64_mul :: "rat \<Rightarrow> rat \<Rightarrow> rat" where
  "f64_mul a b = fl (a * b)"

definition f64_div :: "rat \<Rightarrow> rat \<Rightarrow> rat" where
  \<comment> \<open>Used only with a divisor that is not zero.\<close>
  "f64_div a b = fl (a / b)"

definition f64_sum :: "rat list \<Rightarrow> rat" where
  \<comment> \<open>\<^verbatim>\<open>sum(values)\<close>: from 0, left to right.\<close>
  "f64_sum xs = foldl f64_add 0 xs"

subsection \<open>The fusion arithmetic in doubles\<close>

definition analyze_location_indicators_f64 :: "'f list \<Rightarrow> rat dict" where
  "analyze_location_indicators_f64 frames =
     (if frames = [] then
        [(''indicators_found'', 0), (''consistency'', 0)]
      else
        [(''indicators_found'', fl (6 / 10)),
         (''consistency'', fl (8 / 10)),
         (''landmark_detection'', fl (7 / 10)),
         (''text_recognition'', fl (5 / 10)),
         (''weather_consistency'', fl (9 / 10))])"

definition location_weights_f64 :: "rat dict" where
  "location_weights_f64 =
     [(''indicators_found'', fl (3 / 10)),
      (''consistency'', fl (4 / 10)),
      (''landmark_detection'', fl (2 / 10)),
      (''text_recognition'', fl (1 / 10))]"

fun location_loop_f64 :: "rat dict \<Rightarrow> rat dict \<Rightarrow> rat \<times> rat \<Rightarrow> rat \<times> rat" where
  "location_loop_f64 indicators [] (total_score, total_weight) = (total_score, total_weight)"
| "location_loop_f64 indicators ((key, weight) # rest) (total_score, total_weight) =
     (case map_of indicators key of
        Some v \<Rightarrow>
          location_loop_f64 indicators rest
            (f64_add total_score (f64_mul v weight), f64_add total_weight weight)
      | None \<Rightarrow> location_loop_f64 indicators rest (total_score, total_weight))"

definition calculate_location_consistency_f64 :: "rat dict \<Rightarrow> rat" where
  "calculate_location_consistency_f64 indicators =
     (if indicators = [] then 0
      else
        case location_loop_f64 indicators location_weights_f64 (0, 0) of
          (total_score, total_weight) \<Rightarrow>
            if total_weight > 0 then f64_div total_score total_weight else 0)"

definition overall_manipulation_probability_f64 :: "rat dict \<Rightarrow> rat" where
  \<comment> \<open>\<^verbatim>\<open>sum(manipulation_scores.values()) / len(manipulation_scores)\<close>\<close>
  "overall_manipulation_probability_f64 m_scores =
     f64_div (f64_sum (map snd m_scores)) (of_nat (length m_scores))"

definition verification_confidence_f64 :: "rat \<Rightarrow> rat \<Rightarrow> rat" where
  "verification_confidence_f64 score manipulation_probability =
     f64_div (f64_add score (f64_sub 1 manipulation_probability)) 2"

definition stub_scores_f64 :: "rat dict" where
  \<comment> \<open>The pattern scores of the fixed metadata when the timestamp check passes.\<close>
  "stub_scores_f64 =
     [(''gps_jump'', fl (1 / 10)), (''timestamp_mismatch'', fl (1 / 10)),
      (''accuracy_anomaly'', fl (1 / 10)), (''satellite_anomaly'', fl (1 / 10))]"

definition detect_audio_manipulation_f64 :: "string \<Rightarrow> rat dict" where
  "detect_audio_manipulation_f64 audio_path =
     [(''audio_manipulation_score'', fl (1 / 10)),
      (''voice_consistency'', fl (9 / 10)),
      (''audio_quality'', fl (8 / 10))]"

definition weights_f64 :: "rat dict" where
  "weights_f64 =
     [(''face_consistency'', fl (3 / 10)),
      (''lighting_consistency'', fl (2 / 10)),
      (''compression_artifacts'', fl (25 / 100)),
      (''temporal_consistency'', fl (15 / 100)),
      (''audio_manipulation'', fl (1 / 10))]"

definition scores_f64 :: "rat dict dict \<Rightarrow> rat dict" where
  "scores_f64 analysis_results =
     [(''face_consistency'',
         dict_get (dict_get analysis_results ''face_consistency'' [])
           ''consistency_score'' (fl (5 / 10))),
      (''lighting_consistency'',
         dict_get (dict_get analysis_results ''lighting_consistency'' [])
           ''shadow_consistency'' (fl (5 / 10))),
      (''compression_artifacts'',
         f64_sub 1 (dict_get (dict_get analysis_results ''compression_artifacts'' [])
                      ''mean_artifact_score'' (fl (5 / 10)))),
      (''temporal_consistency'',
         dict_get (dict_get analysis_results ''temporal_consistency'' [])
           ''motion_consistency'' (fl (5 / 10))),
      (''audio_manipulation'',
         f64_sub 1 (dict_get (dict_get analysis_results ''audio_manipulation'' [])
                      ''audio_manipulation_score'' (fl (5 / 10))))]"

definition calculate_deepfake_score_f64 :: "rat dict dict \<Rightarrow> rat" where
  "calculate_deepfake_score_f64 analysis_results =
     (let weighted_score =
            f64_sum (map (\<lambda>key. f64_mul (dict_index weights_f64 key)
                                   (dict_index (scores_f64 analysis_results) key))
                       (map fst weights_f64));
          deepfake_probability = f64_sub 1 weighted_score
      in deepfake_probability)"

definition steady_indicators_f64 :: "rat dict dict" where
  \<comment> \<open>Video reports with consistency scores 1 and artifact score 0.\<close>
  "steady_indicators_f64 =
     [(''face_consistency'', [(''consistency_score'', 1)]),
      (''lighting_consistency'', [(''shadow_consistency'', 1)]),
      (''compression_artifacts'', [(''mean_artifact_score'', 0)]),
      (''temporal_consistency'', [(''motion_consistency'', 1)])]"

definition late_clock :: clock where
  \<comment> \<open>The timestamp check reads the clock 25 hours after the extraction.\<close>
  "late_clock = \<lparr>t_start = 43200, t_gps = 43201, t_detect = 133201, t_end = 133202\<rparr>"

definition video_scores_in_unit_interval :: "report dict \<Rightarrow> bool" where
  "video_scores_in_unit_interval r \<longleftrightarrow>
     0 \<le> metric r ''face_consistency'' ''consistency_score''
     \<and> metric r ''face_consistency'' ''consistency_score'' \<le> 1
     \<and> 0 \<le> metric r ''lighting_consistency'' ''shadow_consistency''
     \<and> metric r ''lighting_consistency'' ''shadow_consistency'' \<le> 1
     \<and> 0 \<le> metric r ''compression_artifacts'' ''mean_artifact_score''
     \<and> metric r ''compression_artifacts'' ''mean_artifact_score'' \<le> 1
     \<and> 0 \<le> metric r ''temporal_consistency'' ''motion_consistency''
     \<and> metric r ''temporal_consistency'' ''motion_consistency'' \<le> 1"

definition ulp_bound :: rat where
  \<comment> \<open>A bound on the rounding error of one operation whose exact result is at most 2 in
      absolute value.\<close>
  "ulp_bound = 1 / 2 ^ 52"

definition fused_f64 :: "rat \<Rightarrow> rat \<Rightarrow> rat \<Rightarrow> rat \<Rightarrow> rat \<Rightarrow> rat" where
  \<comment> \<open>The operations of \<open>calculate_deepfake_score_f64\<close> on the five metrics, in order.\<close>
  "fused_f64 m1 m2 m3 m4 m5 =
     f64_sub 1
       (f64_add (f64_add (f64_add (f64_add (f64_add 0
          (f64_mul (fl (3 / 10)) m1))
          (f64_mul (fl (2 / 10)) m2))
          (f64_mul (fl (25 / 100)) (f64_sub 1 m3)))
          (f64_mul (fl (15 / 100)) m4))
          (f64_mul (fl (1 / 10)) (f64_sub 1 m5)))"

definition fused_exact :: "rat \<Rightarrow> rat \<Rightarrow> rat \<Rightarrow> rat \<Rightarrow> rat \<Rightarrow> rat" where
  \<comment> \<open>The same expression without rounding.\<close>
  "fused_exact m1 m2 m3 m4 m5 =
     1 - (3 / 10 * m1 + 2 / 10 * m2 + 25 / 100 * (1 - m3) + 15 / 100 * m4
          + 1 / 10 * (1 - m5))"

definition metric_f64 :: "rat dict dict \<Rightarrow> string \<Rightarrow> string \<Rightarrow> rat" where
  "metric_f64 analysis_results signal name =
     dict_get (dict_get analysis_results signal []) name (fl (5 / 10))"

definition video_scores_in_unit_interval_f64 :: "rat dict dict \<Rightarrow> bool" where
  "video_scores_in_unit_interval_f64 r \<longleftrightarrow>
     0 \<le> metric_f64 r ''face_consistency'' ''consistency_score''
     \<and> metric_f64 r ''face_consistency'' ''consistency_score'' \<le> 1
     \<and> 0 \<le> metric_f64 r ''lighting_consistency'' ''shadow_consistency''
     \<and> metric_f64 r ''lighting_consistency'' ''shadow_consistency'' \<le> 1
     \<and> 0 \<le> metric_f64 r ''compression_artifacts'' ''mean_artifact_score''
     \<and> metric_f64 r ''compression_artifacts'' ''mean_artifact_score'' \<le> 1
     \<and> 0 \<le> metric_f64 r ''temporal_consistency'' ''motion_consistency''
     \<and> metric_f64 r ''temporal_consistency'' ''motion_consistency'' \<le> 1"

section \<open>Properties\<close>

subsection \<open>Evaluation on the concrete inputs\<close>

lemma studio_run: "analyze_video_try studio_env 5 7 ''clip.mp4'' None = Inr still_result"
  by code_simp

lemma studio_missing:
  "analyze_video_try studio_env 5 7 ''missing.mp4'' None =
     Inl (ValueError ''zero-size array to reduction operation maximum which has no identity'')"
  by code_simp

subsection \<open>Fusion of the deepfake signals\<close>

lemma get_get: "dict_get (dict_get r s []) n 0.5 = metric r s n"
  by (simp add: dict_get_def metric_def split: option.splits)

lemma calc_unfold:
  "calculate_deepfake_score r =
     1 - (0.3 * dict_get (dict_get r ''face_consistency'' []) ''consistency_score'' 0.5
        + 0.2 * dict_get (dict_get r ''lighting_consistency'' []) ''shadow_consistency'' 0.5
        + 0.25 * (1 - dict_get (dict_get r ''compression_artifacts'' [])
                        ''mean_artifact_score'' 0.5)
        + 0.15 * dict_get (dict_get r ''temporal_consistency'' []) ''motion_consistency'' 0.5
        + 0.1 * (1 - dict_get (dict_get r ''audio_manipulation'' [])
                       ''audio_manipulation_score'' 0.5))"
  by (simp add: calculate_deepfake_score_def weights_def scores_def dict_index_def Let_def)

lemma calc_metric:
  "calculate_deepfake_score r =
     1 - (0.3 * metric r ''face_consistency'' ''consistency_score''
        + 0.2 * metric r ''lighting_consistency'' ''shadow_consistency''
        + 0.25 * (1 - metric r ''compression_artifacts'' ''mean_artifact_score'')
        + 0.15 * metric r ''temporal_consistency'' ''motion_consistency''
        + 0.1 * (1 - metric r ''audio_manipulation'' ''audio_manipulation_score''))"
  unfolding calc_unfold get_get by (rule refl)

lemma convex_bounds:
  fixes a b c d e :: real
  assumes "0 \<le> a" "a \<le> 1" "0 \<le> b" "b \<le> 1" "0 \<le> c" "c \<le> 1"
    "0 \<le> d" "d \<le> 1" "0 \<le> e" "e \<le> 1"
  shows "0 \<le> 1 - (0.3 * a + 0.2 * b + 0.25 * (1 - c) + 0.15 * d + 0.1 * (1 - e))"
    and "1 - (0.3 * a + 0.2 * b + 0.25 * (1 - c) + 0.15 * d + 0.1 * (1 - e)) \<le> 1"
proof -
  define S where "S = 6 * a + 4 * b + 5 * (1 - c) + 3 * d + 2 * (1 - e)"
  have eq: "0.3 * a + 0.2 * b + 0.25 * (1 - c) + 0.15 * d + 0.1 * (1 - e) = S / 20"
    unfolding S_def by (simp add: field_simps)
  have lo: "0 \<le> S" unfolding S_def using assms by argo
  have hi: "S \<le> 20" unfolding S_def using assms by argo
  show "0 \<le> 1 - (0.3 * a + 0.2 * b + 0.25 * (1 - c) + 0.15 * d + 0.1 * (1 - e))"
    unfolding eq using hi by simp
  show "1 - (0.3 * a + 0.2 * b + 0.25 * (1 - c) + 0.15 * d + 0.1 * (1 - e)) \<le> 1"
    unfolding eq using lo by simp
qed

lemma analyze_video_try_fused:
  assumes "analyze_video_try env start_time end_time video_path audio_path = Inr r"
  shows "classification r = classification_of (deepfake_score r)
    \<and> confidence r = confidence_of (classification r) (deepfake_score r)
    \<and> deepfake_score r = calculate_deepfake_score (manipulation_indicators r)
    \<and> error r = None
    \<and> model_version r = ''1.0.0''
    \<and> processing_time r = end_time - start_time
    \<and> (\<exists>frames. extract_frames env video_path 100 = Inr frames
           \<and> frames_analyzed r = Some (length frames)
           \<and> heatmap_frames r = generate_heatmap_frames frames (manipulation_indicators r))"
proof -
  obtain frames where f: "extract_frames env video_path 100 = Inr frames"
    using assms by (cases "extract_frames env video_path 100")
      (simp_all add: analyze_video_try_def)
  obtain comp where c: "analyze_compression_artifacts env frames = Inr comp"
    using assms f by (cases "analyze_compression_artifacts env frames")
      (simp_all add: analyze_video_try_def)
  show ?thesis
    using assms f c by (auto simp: analyze_video_try_def Let_def)
qed

text \<open>
  C1. Whenever the body of \<^verbatim>\<open>analyze_video\<close> completes without an exception, the
  classification is decided by \<^verbatim>\<open>deepfake_score\<close> alone: it is \<^verbatim>\<open>deepfake\<close> exactly when the
  score is above 0.7, \<^verbatim>\<open>real\<close> exactly when it is below 0.3, and \<^verbatim>\<open>uncertain\<close> otherwise; the
  confidence is one minus the score for \<^verbatim>\<open>real\<close> and the score otherwise. The scores 0.7 and
  0.3 are \<^verbatim>\<open>uncertain\<close>, 0.71 is \<^verbatim>\<open>deepfake\<close> and 0.29 is \<^verbatim>\<open>real\<close>.
\<close>

theorem analyze_video_classification:
  "(analyze_video_try env start_time end_time video_path audio_path = Inr r \<longrightarrow>
      analyze_video env start_time end_time video_path audio_path = r
      \<and> (classification r = ''deepfake'' \<longleftrightarrow> deepfake_score r > 0.7)
      \<and> (classification r = ''real'' \<longleftrightarrow> deepfake_score r < 0.3)
      \<and> (classification r = ''uncertain'' \<longleftrightarrow>
            \<not> deepfake_score r > 0.7 \<and> \<not> deepfake_score r < 0.3)
      \<and> confidence r =
           (if classification r = ''real'' then 1 - deepfake_score r else deepfake_score r))
   \<and> classification_of 0.7 = ''uncertain''
   \<and> classification_of 0.3 = ''uncertain''
   \<and> classification_of 0.71 = ''deepfake''
   \<and> classification_of 0.29 = ''real''"
proof (intro conjI impI)
  assume run: "analyze_video_try env start_time end_time video_path audio_path = Inr r"
  show "analyze_video env start_time end_time video_path audio_path = r"
    using run by (simp add: analyze_video_def)
  have c: "classification r = classification_of (deepfake_score r)"
    using analyze_video_try_fused [OF run] by simp
  have k: "confidence r = confidence_of (classification r) (deepfake_score r)"
    using analyze_video_try_fused [OF run] by simp
  show "classification r = ''deepfake'' \<longleftrightarrow> deepfake_score r > 0.7"
    unfolding c classification_of_def by simp
  show "classification r = ''real'' \<longleftrightarrow> deepfake_score r < 0.3"
    unfolding c classification_of_def by simp
  show "classification r = ''uncertain'' \<longleftrightarrow>
          \<not> deepfake_score r > 0.7 \<and> \<not> deepfake_score r < 0.3"
    unfolding c classification_of_def by simp
  show "confidence r =
          (if classification r = ''real'' then 1 - deepfake_score r else deepfake_score r)"
    using k by (simp add: confidence_of_def)
qed (simp_all add: classification_of_def)

theorem analyze_video_classification_witness:
  "analyze_video_try studio_env 5 7 ''clip.mp4'' None = Inr still_result
   \<and> analyze_video studio_env 5 7 ''clip.mp4'' None = still_result
   \<and> classification still_result = ''real''
   \<and> deepfake_score still_result < 0.3
   \<and> confidence still_result = 1 - deepfake_score still_result"
  using analyze_video_classification [of studio_env 5 7 "''clip.mp4''" None still_result]
    studio_run
  by (simp add: still_result_def)

text \<open>
  C2. For every mapping of signal reports, \<^verbatim>\<open>calculate_deepfake_score\<close> returns one minus
  the weighted score 0.30 consistency_score + 0.20 shadow_consistency
  + 0.25 (1 - mean_artifact_score) + 0.15 motion_consistency
  + 0.10 (1 - audio_manipulation_score), every missing metric being replaced by 0.5.
\<close>

theorem calculate_deepfake_score_formula:
  "calculate_deepfake_score r = 1 - spec_weighted_score r"
  unfolding calc_unfold get_get spec_weighted_score_def by simp

text \<open>
  C7. When the five sub-scores (after the default 0.5 for a missing one) lie in [0,1], the
  fused deepfake score lies in [0,1]; the five weights sum to 1; and for a location
  consistency and a manipulation probability in [0,1] the verification confidence lies in
  [0,1].
\<close>

theorem fused_scores_in_unit_interval:
  "(0 \<le> metric r ''face_consistency'' ''consistency_score''
      \<and> metric r ''face_consistency'' ''consistency_score'' \<le> 1
      \<and> 0 \<le> metric r ''lighting_consistency'' ''shadow_consistency''
      \<and> metric r ''lighting_consistency'' ''shadow_consistency'' \<le> 1
      \<and> 0 \<le> metric r ''compression_artifacts'' ''mean_artifact_score''
      \<and> metric r ''compression_artifacts'' ''mean_artifact_score'' \<le> 1
      \<and> 0 \<le> metric r ''temporal_consistency'' ''motion_consistency''
      \<and> metric r ''temporal_consistency'' ''motion_consistency'' \<le> 1
      \<and> 0 \<le> metric r ''audio_manipulation'' ''audio_manipulation_score''
      \<and> metric r ''audio_manipulation'' ''audio_manipulation_score'' \<le> 1
    \<longrightarrow> 0 \<le> calculate_deepfake_score r \<and> calculate_deepfake_score r \<le> 1)
   \<and> sum_list (map snd weights) = 1
   \<and> (0 \<le> c \<and> c \<le> 1 \<and> 0 \<le> m \<and> m \<le> 1
        \<longrightarrow> 0 \<le> verification_confidence_of c m \<and> verification_confidence_of c m \<le> 1)"
proof (intro conjI impI)
  assume h: "0 \<le> metric r ''face_consistency'' ''consistency_score''
      \<and> metric r ''face_consistency'' ''consistency_score'' \<le> 1
      \<and> 0 \<le> metric r ''lighting_consistency'' ''shadow_consistency''
      \<and> metric r ''lighting_consistency'' ''shadow_consistency'' \<le> 1
      \<and> 0 \<le> metric r ''compression_artifacts'' ''mean_artifact_score''
      \<and> metric r ''compression_artifacts'' ''mean_artifact_score'' \<le> 1
      \<and> 0 \<le> metric r ''temporal_consistency'' ''motion_consistency''
      \<and> metric r ''temporal_consistency'' ''motion_consistency'' \<le> 1
      \<and> 0 \<le> metric r ''audio_manipulation'' ''audio_manipulation_score''
      \<and> metric r ''audio_manipulation'' ''audio_manipulation_score'' \<le> 1"
  show "0 \<le> calculate_deepfake_score r"
    unfolding calc_metric using h by (intro convex_bounds(1)) simp_all
  show "calculate_deepfake_score r \<le> 1"
    unfolding calc_metric using h by (intro convex_bounds(2)) simp_all
next
  show "sum_list (map snd weights) = 1" by (simp add: weights_def)
next
  assume "0 \<le> c \<and> c \<le> 1 \<and> 0 \<le> m \<and> m \<le> 1"
  then show "0 \<le> verification_confidence_of c m" "verification_confidence_of c m \<le> 1"
    by (simp_all add: verification_confidence_of_def)
qed

lemma still_metrics:
  "metric still_indicators ''face_consistency'' ''consistency_score'' = 1"
  "metric still_indicators ''lighting_consistency'' ''shadow_consistency'' = 1"
  "metric still_indicators ''compression_artifacts'' ''mean_artifact_score'' = 0.2"
  "metric still_indicators ''temporal_consistency'' ''motion_consistency'' = 1"
  "metric still_indicators ''audio_manipulation'' ''audio_manipulation_score'' = 0.5"
  by (simp_all add: metric_def still_indicators_def)

theorem fused_scores_in_unit_interval_witness:
  "0 \<le> metric still_indicators ''face_consistency'' ''consistency_score''
   \<and> metric still_indicators ''face_consistency'' ''consistency_score'' \<le> 1
   \<and> 0 \<le> metric still_indicators ''lighting_consistency'' ''shadow_consistency''
   \<and> metric still_indicators ''lighting_consistency'' ''shadow_consistency'' \<le> 1
   \<and> 0 \<le> metric still_indicators ''compression_artifacts'' ''mean_artifact_score''
   \<and> metric still_indicators ''compression_artifacts'' ''mean_artifact_score'' \<le> 1
   \<and> 0 \<le> metric still_indicators ''temporal_consistency'' ''motion_consistency''
   \<and> metric still_indicators ''temporal_consistency'' ''motion_consistency'' \<le> 1
   \<and> 0 \<le> metric still_indicators ''audio_manipulation'' ''audio_manipulation_score''
   \<and> metric still_indicators ''audio_manipulation'' ''audio_manipulation_score'' \<le> 1
   \<and> 0 \<le> calculate_deepfake_score still_indicators
   \<and> calculate_deepfake_score still_indicators \<le> 1
   \<and> (0::real) \<le> 0.69 \<and> (0.69::real) \<le> 1 \<and> (0::real) \<le> 0.1 \<and> (0.1::real) \<le> 1
   \<and> 0 \<le> verification_confidence_of 0.69 0.1
   \<and> verification_confidence_of 0.69 0.1 \<le> 1"
  using fused_scores_in_unit_interval [of still_indicators "0.69" "0.1"]
  by (simp add: still_metrics)

subsection \<open>Degenerate frame sequences\<close>

lemma degenerate_reports:
  assumes "length frames < 2"
  shows "analyze_face_consistency env frames =
           [(''consistency_score'', 0), (''face_count_variance'', 0)]"
    and "analyze_lighting_consistency env frames =
           [(''lighting_variance'', 0), (''shadow_consistency'', 0)]"
    and "analyze_temporal_consistency env frames =
           [(''motion_consistency'', 0), (''temporal_variance'', 0)]"
  using assms
  by (simp_all add: analyze_face_consistency_def analyze_lighting_consistency_def
        analyze_temporal_consistency_def)

lemma compression_single_frame:
  "analyze_compression_artifacts env [frame] =
     Inr [(''mean_artifact_score'', highpass_std env frame / 255),
          (''artifact_variance'', 0),
          (''max_artifact_score'', highpass_std env frame / 255)]"
  by (simp add: analyze_compression_artifacts_def np_max_def np_mean_def)

lemma compression_raises_iff:
  "(\<exists>e. analyze_compression_artifacts env frames = Inl e) \<longleftrightarrow> frames = []"
  by (auto simp: analyze_compression_artifacts_def np_max_def Let_def)

text \<open>
  C3. On the empty frame sequence the face, lighting and temporal analyzers return their
  degenerate reports, and \<^verbatim>\<open>analyze_compression_artifacts\<close> raises the ValueError of
  \<^verbatim>\<open>np.max\<close>: it has no guard on the number of frames.
\<close>

theorem compression_artifacts_empty_raises:
  "analyze_face_consistency env [] = [(''consistency_score'', 0), (''face_count_variance'', 0)]
   \<and> analyze_lighting_consistency env [] =
        [(''lighting_variance'', 0), (''shadow_consistency'', 0)]
   \<and> analyze_temporal_consistency env [] =
        [(''motion_consistency'', 0), (''temporal_variance'', 0)]
   \<and> analyze_compression_artifacts env [] =
        Inl (ValueError ''zero-size array to reduction operation maximum which has no identity'')"
  by (simp add: analyze_face_consistency_def analyze_lighting_consistency_def
        analyze_temporal_consistency_def analyze_compression_artifacts_def np_max_def)

subsection \<open>Frame sampling\<close>

lemma upt_nat_step:
  assumes "0 \<le> k" "k < T"
  shows "[nat k ..< nat T] = nat k # [nat (k + 1) ..< nat T]"
proof -
  have "nat k < nat T" using assms by simp
  moreover have "nat (k + 1) = Suc (nat k)" using assms by simp
  ultimately show ?thesis by (simp add: upt_conv_Cons)
qed

lemma sample_loop_closed:
  "0 \<le> k \<Longrightarrow> int (length frames) \<le> m \<Longrightarrow>
   sample_loop m T s cap k frames =
     take (nat m) (frames @ concat (map (keep_at s) (zip [nat k ..< nat T] (stream cap))))"
proof (induction m T s cap k frames rule: sample_loop.induct)
  case (1 m T s cap k frames)
  show ?case
  proof (cases "int (length frames) < m \<and> k < T")
    case False
    then have stop: "sample_loop m T s cap k frames = frames"
      by (subst sample_loop.simps) auto
    from False consider "int (length frames) = m" | "T \<le> k" using "1.prems" by linarith
    then have "take (nat m) (frames @ concat (map (keep_at s) (zip [nat k ..< nat T] (stream cap))))
       = frames"
    proof cases
      case 1
      then have "nat m = length frames" by simp
      then show ?thesis by simp
    next
      case 2
      then have "nat T \<le> nat k" by simp
      moreover have "length frames \<le> nat m" using "1.prems"(2) by simp
      ultimately show ?thesis by simp
    qed
    then show ?thesis using stop by simp
  next
    case True
    obtain ret cap' where rd: "cap_read cap = (ret, cap')" by (cases "cap_read cap")
    define frames' where "frames' = (case ret of
                  Some frame \<Rightarrow> if k mod s = 0 then frames @ [frame] else frames
                | None \<Rightarrow> frames)"
    have len': "int (length frames') \<le> m"
      using True by (auto simp: frames'_def split: option.splits)
    have step: "sample_loop m T s cap k frames = sample_loop m T s cap' (k + 1) frames'"
      using True rd by (subst sample_loop.simps) (simp add: frames'_def)
    have IH: "sample_loop m T s cap' (k + 1) frames' =
       take (nat m) (frames' @ concat (map (keep_at s) (zip [nat (k + 1) ..< nat T] (stream cap'))))"
      using "1.IH"[OF True rd[symmetric]] "1.prems"(1) len'
      by (simp add: frames'_def)
    have upt: "[nat k ..< nat T] = nat k # [nat (k + 1) ..< nat T]"
      using upt_nat_step "1.prems"(1) True by simp
    have "frames' @ concat (map (keep_at s) (zip [nat (k + 1) ..< nat T] (stream cap')))
        = frames @ concat (map (keep_at s) (zip [nat k ..< nat T] (stream cap)))"
    proof (cases "stream cap")
      case Nil
      then show ?thesis using rd by (simp add: cap_read_def frames'_def)
    next
      case (Cons r rs)
      then have "ret = r" "stream cap' = rs" using rd by (auto simp: cap_read_def)
      then show ?thesis using Cons "1.prems"(1)
        by (simp add: upt frames'_def keep_at_def split: option.splits)
    qed
    then show ?thesis using step IH by simp
  qed
qed

lemma length_kept: "length (concat (map (keep_at s) ps)) \<le> length ps"
  by (induction ps) (auto simp: keep_at_def split: option.splits)

lemma sample_frames_closed:
  assumes "1 \<le> max_frames"
  shows "sample_frames cap max_frames = Inr (spec_sample cap max_frames)"
proof -
  have "max_frames \<noteq> 0" using assms by simp
  moreover have "sample_loop max_frames (prop_frame_count cap)
           (max 1 (prop_frame_count cap div max_frames)) cap 0 []
        = take (nat max_frames)
            ([] @ concat (map (keep_at (max 1 (prop_frame_count cap div max_frames)))
                    (zip [nat 0 ..< nat (prop_frame_count cap)] (stream cap))))"
    using assms by (intro sample_loop_closed) simp_all
  ultimately show ?thesis
    by (simp add: sample_frames_def floordiv_def spec_sample_def Let_def)
qed

lemma spec_sample_length:
  "length (spec_sample cap max_frames) \<le> nat max_frames"
  "length (spec_sample cap max_frames) \<le> nat (prop_frame_count cap)"
proof -
  let ?ps = "zip [0 ..< nat (prop_frame_count cap)] (stream cap)"
  let ?s = "max 1 (prop_frame_count cap div max_frames)"
  show "length (spec_sample cap max_frames) \<le> nat max_frames"
    by (simp add: spec_sample_def Let_def)
  have "length (concat (map (keep_at ?s) ?ps)) \<le> length ?ps" by (rule length_kept)
  also have "\<dots> \<le> nat (prop_frame_count cap)" by simp
  finally show "length (spec_sample cap max_frames) \<le> nat (prop_frame_count cap)"
    by (simp add: spec_sample_def Let_def)
qed

lemma kept_all_failed:
  "\<forall>p \<in> set ps. snd p = None \<Longrightarrow> concat (map (keep_at s) ps) = []"
  by (induction ps) (auto simp: keep_at_def)

lemma spec_sample_undecodable:
  assumes "\<forall>r \<in> set (stream cap). r = None"
  shows "spec_sample cap max_frames = []"
proof -
  have "\<forall>p \<in> set (zip [0 ..< nat (prop_frame_count cap)] (stream cap)). snd p = None"
    using assms by (auto dest: set_zip_rightD)
  then show ?thesis by (simp add: spec_sample_def Let_def kept_all_failed)
qed

text \<open>
  C8. For a capture with frame count T and \<open>max_frames \<ge> 1\<close>, \<^verbatim>\<open>extract_frames\<close> returns the
  frames decoded at the ordinal positions below T that are multiples of
  \<open>max 1 (T div max_frames)\<close>, cut after \<open>max_frames\<close> frames; the result is no longer than
  \<open>max_frames\<close> and, for a frame count T that is not negative, no longer than T; a capture
  that could not be opened, or none of whose reads decodes a frame, gives the empty list and
  no exception.
\<close>

theorem frame_sampler_stride:
  assumes "1 \<le> max_frames" and "VideoCapture env video_path = Inr cap"
  shows "extract_frames env video_path max_frames = Inr (spec_sample cap max_frames)
    \<and> int (length (spec_sample cap max_frames)) \<le> max_frames
    \<and> (0 \<le> prop_frame_count cap \<longrightarrow>
          int (length (spec_sample cap max_frames)) \<le> prop_frame_count cap)
    \<and> (cap = unopened_capture \<longrightarrow> extract_frames env video_path max_frames = Inr [])
    \<and> ((\<forall>r \<in> set (stream cap). r = None) \<longrightarrow>
          extract_frames env video_path max_frames = Inr [])"
proof -
  have run: "extract_frames env video_path max_frames = Inr (spec_sample cap max_frames)"
    using assms by (simp add: extract_frames_def sample_frames_closed)
  have l1: "int (length (spec_sample cap max_frames)) \<le> max_frames"
    using spec_sample_length(1)[of cap max_frames] assms(1) by linarith
  have l2: "0 \<le> prop_frame_count cap \<longrightarrow>
          int (length (spec_sample cap max_frames)) \<le> prop_frame_count cap"
    using spec_sample_length(2)[of cap max_frames] by linarith
  have u: "cap = unopened_capture \<longrightarrow> spec_sample cap max_frames = []"
    by (simp add: unopened_capture_def spec_sample_def)
  show ?thesis using run l1 l2 u spec_sample_undecodable[of cap max_frames] by simp
qed

lemma long_clip_sample: "spec_sample long_clip 3 = [0, 4, 6]"
  by (simp add: spec_sample_def long_clip_def keep_at_def Let_def upt_rec)

lemma studio_captures:
  "VideoCapture studio_env ''long.mp4'' = Inr long_clip"
  "VideoCapture studio_env ''clip.mp4'' = Inr clip"
  "VideoCapture studio_env ''missing.mp4'' = Inr unopened_capture"
  "VideoCapture studio_env ''stream://bad'' = Inl (CvError ''cannot open'')"
  by (simp_all add: studio_env_def)

theorem frame_sampler_stride_witness:
  "(1::int) \<le> 3 \<and> VideoCapture studio_env ''long.mp4'' = Inr long_clip
   \<and> 0 \<le> prop_frame_count long_clip
   \<and> extract_frames studio_env ''long.mp4'' 3 = Inr [0, 4, 6]
   \<and> VideoCapture studio_env ''missing.mp4'' = Inr unopened_capture
   \<and> stream (unopened_capture :: nat capture) = []
   \<and> extract_frames studio_env ''missing.mp4'' 3 = Inr []"
  using frame_sampler_stride [of 3 studio_env "''long.mp4''" long_clip]
    frame_sampler_stride [of 3 studio_env "''missing.mp4''" unopened_capture]
  by (simp add: studio_captures long_clip_sample) (simp add: long_clip_def unopened_capture_def)

subsection \<open>Geospatial fusion\<close>

lemma verify_failed:
  assumes "extract_gps_metadata env (t_gps clk) video_path = None"
  shows "verify_geospatial_authenticity env clk video_path = failed_result"
    and "verify_calls env clk video_path = [Call_extract_gps_metadata]"
  using assms
  by (simp_all add: verify_geospatial_authenticity_def verify_calls_def verify_try_def
        failed_result_def)

lemma verify_ok:
  assumes "extract_gps_metadata env (t_gps clk) video_path = Some g"
  shows "verify_geospatial_authenticity env clk video_path =
     (let loc = verify_location_consistency env g video_path;
          man = detect_gps_manipulation (t_detect clk) g;
          conf = verification_confidence_of (consistency_score loc)
                   (overall_manipulation_probability man)
      in \<lparr>verification_status = verification_status_of conf,
          verification_confidence = Some conf,
          gps_metadata = Some g,
          location_consistency = Some loc,
          gps_manipulation = Some man,
          geo_processing_time = t_end clk - t_start clk,
          verification_methods = Some [''gps_analysis'', ''visual_analysis''],
          geo_error = None\<rparr>)"
    and "verify_calls env clk video_path =
      [Call_extract_gps_metadata, Call_verify_location_consistency,
       Call_detect_gps_manipulation]"
  using assms
  by (simp_all add: verify_geospatial_authenticity_def verify_calls_def verify_try_def Let_def)

lemma status_of_iff:
  "verification_status_of c = ''verified'' \<longleftrightarrow> c > 0.7"
  "verification_status_of c = ''suspicious'' \<longleftrightarrow> c < 0.3"
  "verification_status_of c = ''uncertain'' \<longleftrightarrow> \<not> c > 0.7 \<and> \<not> c < 0.3"
  by (simp_all add: verification_status_of_def)

text \<open>
  C5. When GPS extraction returns nothing, \<^verbatim>\<open>verify_geospatial_authenticity\<close> returns the
  status \<^verbatim>\<open>failed\<close> and has called neither the location-consistency nor the
  GPS-manipulation analyzer. Otherwise the confidence is
  (consistency score + (1 - overall manipulation probability)) / 2, and the status is
  \<^verbatim>\<open>verified\<close> exactly when the confidence is above 0.7, \<^verbatim>\<open>suspicious\<close> exactly when it is
  below 0.3, and \<^verbatim>\<open>uncertain\<close> otherwise; 0.7 and 0.3 give \<^verbatim>\<open>uncertain\<close>, 0.29 gives
  \<^verbatim>\<open>suspicious\<close>, 0.71 gives \<^verbatim>\<open>verified\<close>.
\<close>

theorem geospatial_status_policy:
  "(extract_gps_metadata env (t_gps clk) video_path = None \<longrightarrow>
      verification_status (verify_geospatial_authenticity env clk video_path) = ''failed''
      \<and> verify_calls env clk video_path = [Call_extract_gps_metadata]
      \<and> location_consistency (verify_geospatial_authenticity env clk video_path) = None
      \<and> gps_manipulation (verify_geospatial_authenticity env clk video_path) = None)
   \<and> (extract_gps_metadata env (t_gps clk) video_path = Some g \<longrightarrow>
        (let res = verify_geospatial_authenticity env clk video_path;
             c = consistency_score (verify_location_consistency env g video_path);
             m = overall_manipulation_probability (detect_gps_manipulation (t_detect clk) g);
             conf = (c + (1 - m)) / 2
         in verification_confidence res = Some conf
            \<and> (verification_status res = ''verified'' \<longleftrightarrow> conf > 0.7)
            \<and> (verification_status res = ''suspicious'' \<longleftrightarrow> conf < 0.3)
            \<and> (verification_status res = ''uncertain'' \<longleftrightarrow> \<not> conf > 0.7 \<and> \<not> conf < 0.3)))
   \<and> verification_status_of 0.7 = ''uncertain''
   \<and> verification_status_of 0.3 = ''uncertain''
   \<and> verification_status_of 0.29 = ''suspicious''
   \<and> verification_status_of 0.71 = ''verified''"
proof (intro conjI impI)
  assume n: "extract_gps_metadata env (t_gps clk) video_path = None"
  show "verification_status (verify_geospatial_authenticity env clk video_path) = ''failed''"
    and "location_consistency (verify_geospatial_authenticity env clk video_path) = None"
    and "gps_manipulation (verify_geospatial_authenticity env clk video_path) = None"
    by (simp_all add: verify_failed(1) [OF n] failed_result_def)
  show "verify_calls env clk video_path = [Call_extract_gps_metadata]"
    by (rule verify_failed(2) [OF n])
next
  assume s: "extract_gps_metadata env (t_gps clk) video_path = Some g"
  show "let res = verify_geospatial_authenticity env clk video_path;
             c = consistency_score (verify_location_consistency env g video_path);
             m = overall_manipulation_probability (detect_gps_manipulation (t_detect clk) g);
             conf = (c + (1 - m)) / 2
         in verification_confidence res = Some conf
            \<and> (verification_status res = ''verified'' \<longleftrightarrow> conf > 0.7)
            \<and> (verification_status res = ''suspicious'' \<longleftrightarrow> conf < 0.3)
            \<and> (verification_status res = ''uncertain'' \<longleftrightarrow> \<not> conf > 0.7 \<and> \<not> conf < 0.3)"
    unfolding verify_ok(1) [OF s] Let_def
    by (simp add: status_of_iff verification_confidence_of_def)
qed (simp_all add: verification_status_of_def)

lemma indicators_nonempty:
  "frames \<noteq> [] \<Longrightarrow>
     calculate_location_consistency (analyze_location_indicators frames) = 0.69"
  by (simp add: analyze_location_indicators_def calculate_location_consistency_def
        location_weights_def)

lemma indicators_empty:
  "calculate_location_consistency (analyze_location_indicators []) = 0"
  by (simp add: analyze_location_indicators_def calculate_location_consistency_def
        location_weights_def)

lemma stub_manipulation:
  assumes "\<bar>now - ts\<bar> \<le> 86400"
  shows "detect_gps_manipulation now (stub_metadata ts) =
     \<lparr>manipulation_scores =
        [(''gps_jump'', 0.1), (''timestamp_mismatch'', 0.1),
         (''accuracy_anomaly'', 0.1), (''satellite_anomaly'', 0.1)],
      overall_manipulation_probability = 0.1,
      suspicious_patterns = []\<rparr>"
  using assms
  by (simp add: detect_gps_manipulation_def stub_metadata_def truthy_float_def truthy_int_def
        Let_def)

lemma stub_extract:
  "VideoCapture env video_path = Inr cap \<Longrightarrow>
     extract_gps_metadata env now video_path = Some (stub_metadata now)"
  by (simp add: extract_gps_metadata_def stub_metadata_def)

lemma f64_indicators_cases:
  "frames \<noteq> [] \<Longrightarrow>
     analyze_location_indicators_f64 frames =
       [(''indicators_found'', fl (6 / 10)),
        (''consistency'', fl (8 / 10)),
        (''landmark_detection'', fl (7 / 10)),
        (''text_recognition'', fl (5 / 10)),
        (''weather_consistency'', fl (9 / 10))]"
  "analyze_location_indicators_f64 [] = [(''indicators_found'', 0), (''consistency'', 0)]"
  by (simp_all add: analyze_location_indicators_f64_def)

lemma f64_stub_consistency:
  "calculate_location_consistency_f64
     [(''indicators_found'', fl (6 / 10)),
      (''consistency'', fl (8 / 10)),
      (''landmark_detection'', fl (7 / 10)),
      (''text_recognition'', fl (5 / 10)),
      (''weather_consistency'', fl (9 / 10))] =
     3107483742885643 / 4503599627370496"
  "calculate_location_consistency_f64 [(''indicators_found'', 0), (''consistency'', 0)] = 0"
  by code_simp+

lemma f64_stub_probability:
  "overall_manipulation_probability_f64 stub_scores_f64 = fl (1 / 10)"
  by code_simp

lemma f64_stub_confidence:
  "verification_confidence_f64 (3107483742885643 / 4503599627370496) (fl (1 / 10)) =
     3580361703759545 / 4503599627370496"
  "verification_confidence_f64 0 (fl (1 / 10)) = fl (45 / 100)"
  by code_simp+

lemma f64_literals:
  "fl (795 / 1000) = 7160723407519089 / 9007199254740992"
  "fl (69 / 100) = 1553741871442821 / 2251799813685248"
  "fl (7 / 10) = 3152519739159347 / 4503599627370496"
  "fl (3 / 10) = 5404319552844595 / 18014398509481984"
  "fl (45 / 100) = 8106479329266893 / 18014398509481984"
  by code_simp+

text \<open>
  C9, as amended. For every video whose capture object can be constructed,
  \<^verbatim>\<open>extract_gps_metadata\<close> returns the same fixed metadata, whatever the capture holds. When
  the clock reading of the timestamp check is within 24 hours of the reading stored as the
  GPS timestamp: a video from which at least one frame is sampled is \<^verbatim>\<open>verified\<close>, with
  manipulation probability 0.1 and no triggered pattern, and its confidence is 0.795 and its
  location consistency 0.69 up to rounding (in doubles 0.7950000000000002 and
  0.6900000000000002, the values of the last conjuncts); a video from which no frame is
  sampled is \<^verbatim>\<open>uncertain\<close> with confidence 0.45, in doubles as well.
\<close>

theorem stub_gps_fixed_verdict:
  assumes "VideoCapture env video_path = Inr cap"
    and "\<bar>t_detect clk - t_gps clk\<bar> \<le> 86400"
  shows "extract_gps_metadata env now video_path =
           Some \<lparr>latitude = 37.7749, longitude = - 122.4194, altitude = Some 10.0,
                 timestamp = Some now, accuracy = Some 5.0, satellites = Some 8,
                 device_info = Some ''iPhone 12''\<rparr>
    \<and> (extract_sample_frames env video_path 20 \<noteq> [] \<longrightarrow>
         (let res = verify_geospatial_authenticity env clk video_path
          in verification_status res = ''verified''
             \<and> (\<exists>c. verification_confidence res = Some c \<and> \<bar>c - 0.795\<bar> \<le> 1 / 10 ^ 12)
             \<and> (\<exists>l. location_consistency res = Some l
                    \<and> \<bar>consistency_score l - 0.69\<bar> \<le> 1 / 10 ^ 12)
             \<and> map_option overall_manipulation_probability (gps_manipulation res) = Some 0.1
             \<and> map_option suspicious_patterns (gps_manipulation res) = Some [])
         \<and> calculate_location_consistency_f64
              (analyze_location_indicators_f64 (extract_sample_frames env video_path 20)) =
             3107483742885643 / 4503599627370496
         \<and> verification_confidence_f64
              (calculate_location_consistency_f64
                 (analyze_location_indicators_f64 (extract_sample_frames env video_path 20)))
              (overall_manipulation_probability_f64 stub_scores_f64) =
             3580361703759545 / 4503599627370496)
    \<and> (extract_sample_frames env video_path 20 = [] \<longrightarrow>
         (let res = verify_geospatial_authenticity env clk video_path
          in verification_status res = ''uncertain''
             \<and> verification_confidence res = Some 0.45)
         \<and> verification_confidence_f64
              (calculate_location_consistency_f64
                 (analyze_location_indicators_f64 (extract_sample_frames env video_path 20)))
              (overall_manipulation_probability_f64 stub_scores_f64) = fl (45 / 100))
    \<and> overall_manipulation_probability_f64 stub_scores_f64 = fl (1 / 10)
    \<and> \<bar>3107483742885643 / 4503599627370496 - 69 / 100 :: rat\<bar> \<le> 1 / 10 ^ 15
    \<and> \<bar>3580361703759545 / 4503599627370496 - 795 / 1000 :: rat\<bar> \<le> 1 / 10 ^ 15
    \<and> fl (7 / 10) < (3580361703759545 / 4503599627370496 :: rat)
    \<and> fl (3 / 10) < fl (45 / 100) \<and> fl (45 / 100) < fl (7 / 10)"
proof (intro conjI impI)
  show "extract_gps_metadata env now video_path =
           Some \<lparr>latitude = 37.7749, longitude = - 122.4194, altitude = Some 10.0,
                 timestamp = Some now, accuracy = Some 5.0, satellites = Some 8,
                 device_info = Some ''iPhone 12''\<rparr>"
    using assms(1) by (simp add: extract_gps_metadata_def)
next
  assume f: "extract_sample_frames env video_path 20 \<noteq> []"
  have loc: "consistency_score
               (verify_location_consistency env (stub_metadata (t_gps clk)) video_path) = 0.69"
    using f by (simp add: verify_location_consistency_def Let_def indicators_nonempty)
  show "let res = verify_geospatial_authenticity env clk video_path
          in verification_status res = ''verified''
             \<and> (\<exists>c. verification_confidence res = Some c \<and> \<bar>c - 0.795\<bar> \<le> 1 / 10 ^ 12)
             \<and> (\<exists>l. location_consistency res = Some l
                    \<and> \<bar>consistency_score l - 0.69\<bar> \<le> 1 / 10 ^ 12)
             \<and> map_option overall_manipulation_probability (gps_manipulation res) = Some 0.1
             \<and> map_option suspicious_patterns (gps_manipulation res) = Some []"
    unfolding verify_ok(1) [OF stub_extract [OF assms(1)]] Let_def
    by (simp add: loc stub_manipulation [OF assms(2)] verification_confidence_of_def
          verification_status_of_def exI [of _ "0.795"])
  show "calculate_location_consistency_f64
              (analyze_location_indicators_f64 (extract_sample_frames env video_path 20)) =
             3107483742885643 / 4503599627370496"
    unfolding f64_indicators_cases(1) [OF f] by (rule f64_stub_consistency(1))
  show "verification_confidence_f64
              (calculate_location_consistency_f64
                 (analyze_location_indicators_f64 (extract_sample_frames env video_path 20)))
              (overall_manipulation_probability_f64 stub_scores_f64) =
             3580361703759545 / 4503599627370496"
    unfolding f64_indicators_cases(1) [OF f] f64_stub_consistency f64_stub_probability
    by (rule f64_stub_confidence(1))
next
  assume f: "extract_sample_frames env video_path 20 = []"
  have loc: "consistency_score
               (verify_location_consistency env (stub_metadata (t_gps clk)) video_path) = 0"
    using f by (simp add: verify_location_consistency_def Let_def indicators_empty)
  show "let res = verify_geospatial_authenticity env clk video_path
          in verification_status res = ''uncertain''
             \<and> verification_confidence res = Some 0.45"
    unfolding verify_ok(1) [OF stub_extract [OF assms(1)]] Let_def
    by (simp add: loc stub_manipulation [OF assms(2)] verification_confidence_of_def
          verification_status_of_def)
  show "verification_confidence_f64
              (calculate_location_consistency_f64
                 (analyze_location_indicators_f64 (extract_sample_frames env video_path 20)))
              (overall_manipulation_probability_f64 stub_scores_f64) = fl (45 / 100)"
    unfolding f f64_indicators_cases(2) f64_stub_consistency f64_stub_probability
    by (rule f64_stub_confidence(2))
next
  show "overall_manipulation_probability_f64 stub_scores_f64 = fl (1 / 10)"
    by (rule f64_stub_probability)
  show "fl (7 / 10) < (3580361703759545 / 4503599627370496 :: rat)"
    unfolding f64_literals by simp
  show "fl (3 / 10) < fl (45 / 100)" and "fl (45 / 100) < fl (7 / 10)"
    unfolding f64_literals by simp_all
qed simp_all


lemma studio_gps:
  "extract_gps_metadata studio_env (t_gps noon) ''stream://bad'' = None"
  "extract_gps_metadata studio_env (t_gps noon) ''clip.mp4'' = Some (stub_metadata 43201)"
  by (simp_all add: extract_gps_metadata_def studio_captures stub_metadata_def noon_def)

lemma studio_sample_frames:
  "extract_sample_frames studio_env ''clip.mp4'' 20 = [0, 1, 2]"
  "extract_sample_frames studio_env ''missing.mp4'' 20 = []"
  "extract_sample_frames studio_env ''stream://bad'' 20 = []"
  by code_simp+

lemma studio_verified:
  "verification_status (verify_geospatial_authenticity studio_env noon ''clip.mp4'') = ''verified''"
  "verification_confidence (verify_geospatial_authenticity studio_env noon ''clip.mp4'') = Some 0.795"
  by code_simp+

lemma studio_uncertain:
  "verification_status (verify_geospatial_authenticity studio_env noon ''missing.mp4'') = ''uncertain''"
  "verification_confidence (verify_geospatial_authenticity studio_env noon ''missing.mp4'') = Some 0.45"
  by code_simp+

lemma studio_failed:
  "verify_geospatial_authenticity studio_env noon ''stream://bad'' = failed_result"
  "verify_calls studio_env noon ''stream://bad'' = [Call_extract_gps_metadata]"
  by code_simp+

theorem geospatial_status_policy_witness:
  "extract_gps_metadata studio_env (t_gps noon) ''stream://bad'' = None
   \<and> verification_status (verify_geospatial_authenticity studio_env noon ''stream://bad'')
       = ''failed''
   \<and> verify_calls studio_env noon ''stream://bad'' = [Call_extract_gps_metadata]
   \<and> extract_gps_metadata studio_env (t_gps noon) ''clip.mp4'' = Some (stub_metadata 43201)
   \<and> verification_confidence (verify_geospatial_authenticity studio_env noon ''clip.mp4'')
       = Some 0.795
   \<and> verification_status (verify_geospatial_authenticity studio_env noon ''clip.mp4'')
       = ''verified''"
  using geospatial_status_policy
          [of studio_env noon "''stream://bad''" "stub_metadata 43201"]
        geospatial_status_policy
          [of studio_env noon "''clip.mp4''" "stub_metadata 43201"]
  by (simp add: studio_gps studio_verified)

theorem stub_gps_fixed_verdict_witness:
  "VideoCapture studio_env ''clip.mp4'' = Inr clip
   \<and> \<bar>t_detect noon - t_gps noon\<bar> \<le> 86400
   \<and> extract_sample_frames studio_env ''clip.mp4'' 20 \<noteq> []
   \<and> verification_status (verify_geospatial_authenticity studio_env noon ''clip.mp4'')
       = ''verified''
   \<and> map_option suspicious_patterns
         (gps_manipulation (verify_geospatial_authenticity studio_env noon ''clip.mp4''))
       = Some []
   \<and> VideoCapture studio_env ''missing.mp4'' = Inr unopened_capture
   \<and> extract_sample_frames studio_env ''missing.mp4'' 20 = []
   \<and> verification_status (verify_geospatial_authenticity studio_env noon ''missing.mp4'')
       = ''uncertain''
   \<and> verification_confidence (verify_geospatial_authenticity studio_env noon ''missing.mp4'')
       = Some 0.45"
proof -
  have t: "\<bar>t_detect noon - t_gps noon\<bar> \<le> 86400" by (simp add: noon_def)
  show ?thesis
    using stub_gps_fixed_verdict [OF studio_captures(2) t, of 0]
      stub_gps_fixed_verdict [OF studio_captures(3) t, of 0] t
    by (simp add: studio_captures studio_sample_frames Let_def)
qed

lemma late_clock_patterns:
  "map_option suspicious_patterns
     (gps_manipulation (verify_geospatial_authenticity studio_env late_clock ''clip.mp4''))
   = Some [''timestamp_mismatch'']"
  by code_simp

lemma late_clock_capture:
  "extract_gps_metadata studio_env (t_gps late_clock) ''clip.mp4'' =
     Some (stub_metadata 43201)"
  "extract_sample_frames studio_env ''clip.mp4'' 20 \<noteq> []"
  by (simp_all add: extract_gps_metadata_def studio_captures stub_metadata_def late_clock_def
        studio_sample_frames)

text \<open>
  C9 as stated fails twice. Nothing in it bounds the time between the two clock readings:
  when the timestamp check runs 25 hours after the extraction, a video with sampled frames
  has the triggered pattern \<^verbatim>\<open>timestamp_mismatch\<close>. And in the doubles of the source the
  confidence of the regular run is not the double 0.795, nor the location consistency the
  double 0.69.
\<close>

theorem stub_verdict_counterexample:
  "extract_gps_metadata studio_env (t_gps late_clock) ''clip.mp4'' = Some (stub_metadata 43201)
   \<and> extract_sample_frames studio_env ''clip.mp4'' 20 \<noteq> []
   \<and> map_option suspicious_patterns
        (gps_manipulation (verify_geospatial_authenticity studio_env late_clock ''clip.mp4''))
      = Some [''timestamp_mismatch'']
   \<and> calculate_location_consistency_f64 (analyze_location_indicators_f64 [0::nat])
      \<noteq> fl (69 / 100)
   \<and> verification_confidence_f64
        (calculate_location_consistency_f64 (analyze_location_indicators_f64 [0::nat]))
        (overall_manipulation_probability_f64 stub_scores_f64)
      \<noteq> fl (795 / 1000)"
proof -
  have ne: "[0::nat] \<noteq> []" by simp
  have c: "calculate_location_consistency_f64 (analyze_location_indicators_f64 [0::nat]) =
             3107483742885643 / 4503599627370496"
    unfolding f64_indicators_cases(1) [OF ne] by (rule f64_stub_consistency(1))
  have v: "verification_confidence_f64
             (calculate_location_consistency_f64 (analyze_location_indicators_f64 [0::nat]))
             (overall_manipulation_probability_f64 stub_scores_f64) =
             3580361703759545 / 4503599627370496"
    unfolding c f64_stub_probability by (rule f64_stub_confidence(1))
  have n1: "(3107483742885643 / 4503599627370496 :: rat) \<noteq> fl (69 / 100)"
    unfolding f64_literals by simp
  have n2: "(3580361703759545 / 4503599627370496 :: rat) \<noteq> fl (795 / 1000)"
    unfolding f64_literals by simp
  show ?thesis
  proof (intro conjI)
    show "extract_gps_metadata studio_env (t_gps late_clock) ''clip.mp4'' =
            Some (stub_metadata 43201)"
      by (rule late_clock_capture(1))
    show "extract_sample_frames studio_env ''clip.mp4'' 20 \<noteq> []"
      by (rule late_clock_capture(2))
    show "map_option suspicious_patterns
            (gps_manipulation (verify_geospatial_authenticity studio_env late_clock ''clip.mp4''))
          = Some [''timestamp_mismatch'']"
      by (rule late_clock_patterns)
    show "calculate_location_consistency_f64 (analyze_location_indicators_f64 [0::nat])
          \<noteq> fl (69 / 100)"
      unfolding c by (rule n1)
    show "verification_confidence_f64
            (calculate_location_consistency_f64 (analyze_location_indicators_f64 [0::nat]))
            (overall_manipulation_probability_f64 stub_scores_f64)
          \<noteq> fl (795 / 1000)"
      unfolding v by (rule n2)
  qed
qed

text \<open>
  C6. \<^verbatim>\<open>detect_gps_manipulation\<close> tests \<^verbatim>\<open>if gps_data.accuracy:\<close> and
  \<^verbatim>\<open>if gps_data.satellites:\<close>, so a reported accuracy of 0.0 m and a reported count of 0
  satellites are scored 0.5 like absent values, not 0.7 (accuracy below 1 m) and 0.8 (fewer
  than 4 satellites); the overall probability is then 0.3 and no pattern is triggered.
\<close>

theorem gps_manipulation_zero_is_absent:
  "detect_gps_manipulation now (zero_fix now) =
     \<lparr>manipulation_scores =
        [(''gps_jump'', 0.1), (''timestamp_mismatch'', 0.1),
         (''accuracy_anomaly'', 0.5), (''satellite_anomaly'', 0.5)],
      overall_manipulation_probability = 0.3,
      suspicious_patterns = []\<rparr>"
  by (simp add: detect_gps_manipulation_def zero_fix_def truthy_float_def truthy_int_def Let_def)

lemma gps_manipulation_scenario:
  "detect_gps_manipulation now (scenario_fix now) =
     \<lparr>manipulation_scores =
        [(''gps_jump'', 0.1), (''timestamp_mismatch'', 0.1),
         (''accuracy_anomaly'', 0.7), (''satellite_anomaly'', 0.8)],
      overall_manipulation_probability = 0.425,
      suspicious_patterns = [''accuracy_anomaly'', ''satellite_anomaly'']\<rparr>"
  by (simp add: detect_gps_manipulation_def scenario_fix_def truthy_float_def truthy_int_def
        Let_def)

lemma gps_manipulation_scores:
  "map_of (manipulation_scores (detect_gps_manipulation now g)) ''gps_jump'' = Some 0.1"
  "map_of (manipulation_scores (detect_gps_manipulation now g)) ''timestamp_mismatch'' =
     Some (case timestamp g of
             None \<Rightarrow> 0.5
           | Some ts \<Rightarrow> if \<bar>now - ts\<bar> > 86400 then 0.8 else 0.1)"
  "map_of (manipulation_scores (detect_gps_manipulation now g)) ''accuracy_anomaly'' =
     Some (case accuracy g of
             None \<Rightarrow> 0.5
           | Some a \<Rightarrow> if a = 0 then 0.5 else if a < 1 then 0.7 else if a > 50 then 0.6 else 0.1)"
  "map_of (manipulation_scores (detect_gps_manipulation now g)) ''satellite_anomaly'' =
     Some (case satellites g of
             None \<Rightarrow> 0.5
           | Some n \<Rightarrow> if n = 0 then 0.5 else if n < 4 then 0.8 else if n > 12 then 0.6 else 0.1)"
  by (simp_all add: detect_gps_manipulation_def truthy_float_def truthy_int_def Let_def
        split: option.splits)

subsection \<open>Result records and the audio stub\<close>

lemma verify_cases:
  "verify_geospatial_authenticity env clk video_path = failed_result
   \<or> (\<exists>conf g loc man.
        verify_geospatial_authenticity env clk video_path =
          \<lparr>verification_status = verification_status_of conf,
           verification_confidence = Some conf,
           gps_metadata = Some g,
           location_consistency = Some loc,
           gps_manipulation = Some man,
           geo_processing_time = t_end clk - t_start clk,
           verification_methods = Some [''gps_analysis'', ''visual_analysis''],
           geo_error = None\<rparr>)"
proof (cases "extract_gps_metadata env (t_gps clk) video_path")
  case None
  then show ?thesis by (simp add: verify_failed(1))
next
  case (Some g)
  show ?thesis unfolding verify_ok(1) [OF Some] Let_def by blast
qed

lemma status_of_range:
  "verification_status_of conf \<in> {''verified'', ''suspicious'', ''uncertain''}"
  by (simp add: verification_status_of_def)

lemma classification_of_range:
  "classification_of d \<in> {''deepfake'', ''real'', ''uncertain''}"
  by (simp add: classification_of_def)

text \<open>
  C4, as amended. \<^verbatim>\<open>analyze_video\<close> and \<^verbatim>\<open>verify_geospatial_authenticity\<close> return a record
  for every input. When the body of \<^verbatim>\<open>analyze_video\<close> raises, the record has classification
  \<^verbatim>\<open>error\<close>, confidence 0.0, deepfake score 0.5, no indicators, no heatmap frames and the
  text of the exception; when it completes, the record is fully populated. The handler of
  \<^verbatim>\<open>verify_geospatial_authenticity\<close> returns status \<^verbatim>\<open>error\<close> with confidence 0.0. Every
  other record of \<^verbatim>\<open>verify_geospatial_authenticity\<close> is either the \<^verbatim>\<open>failed\<close> record, which
  holds the status, the error text and the processing time only, or a fully populated
  record with status \<^verbatim>\<open>verified\<close>, \<^verbatim>\<open>suspicious\<close> or \<^verbatim>\<open>uncertain\<close>.
\<close>

theorem entry_points_return_records:
  "(analyze_video_try env start_time end_time video_path audio_path = Inl e \<longrightarrow>
      (let res = analyze_video env start_time end_time video_path audio_path
       in classification res = ''error''
          \<and> confidence res = 0
          \<and> deepfake_score res = 0.5
          \<and> manipulation_indicators res = []
          \<and> heatmap_frames res = []
          \<and> processing_time res = 0
          \<and> model_version res = ''1.0.0''
          \<and> error res = Some (str_exc e)))
   \<and> (analyze_video_try env start_time end_time video_path audio_path = Inr r \<longrightarrow>
        analyze_video env start_time end_time video_path audio_path = r
        \<and> classification r \<in> {''deepfake'', ''real'', ''uncertain''}
        \<and> (\<exists>n. frames_analyzed r = Some n)
        \<and> model_version r = ''1.0.0''
        \<and> error r = None)
   \<and> verification_status (verify_except e') = ''error''
   \<and> verification_confidence (verify_except e') = Some 0
   \<and> (let g = verify_geospatial_authenticity env clk video_path
       in (g = failed_result
           \<or> (verification_status g \<in> {''verified'', ''suspicious'', ''uncertain''}
               \<and> (\<exists>conf. verification_confidence g = Some conf)
               \<and> (\<exists>m. gps_metadata g = Some m)
               \<and> (\<exists>l. location_consistency g = Some l)
               \<and> (\<exists>m. gps_manipulation g = Some m)
               \<and> verification_methods g = Some [''gps_analysis'', ''visual_analysis'']
               \<and> geo_error g = None)))"
proof (intro conjI impI)
  assume "analyze_video_try env start_time end_time video_path audio_path = Inl e"
  then show "let res = analyze_video env start_time end_time video_path audio_path
       in classification res = ''error''
          \<and> confidence res = 0
          \<and> deepfake_score res = 0.5
          \<and> manipulation_indicators res = []
          \<and> heatmap_frames res = []
          \<and> processing_time res = 0
          \<and> model_version res = ''1.0.0''
          \<and> error res = Some (str_exc e)"
    by (simp add: analyze_video_def analyze_video_except_def)
next
  assume run: "analyze_video_try env start_time end_time video_path audio_path = Inr r"
  show "analyze_video env start_time end_time video_path audio_path = r"
    using run by (simp add: analyze_video_def)
  show "classification r \<in> {''deepfake'', ''real'', ''uncertain''}"
    using analyze_video_try_fused [OF run] classification_of_range [of "deepfake_score r"]
    by simp
  show "\<exists>n. frames_analyzed r = Some n" using analyze_video_try_fused [OF run] by blast
  show "model_version r = ''1.0.0''" using analyze_video_try_fused [OF run] by blast
  show "error r = None" using analyze_video_try_fused [OF run] by blast
next
  show "verification_status (verify_except e') = ''error''"
    and "verification_confidence (verify_except e') = Some 0"
    by (simp_all add: verify_except_def)
next
  show "let g = verify_geospatial_authenticity env clk video_path
       in (g = failed_result
           \<or> (verification_status g \<in> {''verified'', ''suspicious'', ''uncertain''}
               \<and> (\<exists>conf. verification_confidence g = Some conf)
               \<and> (\<exists>m. gps_metadata g = Some m)
               \<and> (\<exists>l. location_consistency g = Some l)
               \<and> (\<exists>m. gps_manipulation g = Some m)
               \<and> verification_methods g = Some [''gps_analysis'', ''visual_analysis'']
               \<and> geo_error g = None))"
    using verify_cases [of env clk video_path] status_of_range
    unfolding Let_def by (elim disjE exE) (simp_all del: insert_iff)
qed

theorem entry_points_return_records_witness:
  "analyze_video_try studio_env 5 7 ''missing.mp4'' None =
     Inl (ValueError ''zero-size array to reduction operation maximum which has no identity'')
   \<and> classification (analyze_video studio_env 5 7 ''missing.mp4'' None) = ''error''
   \<and> confidence (analyze_video studio_env 5 7 ''missing.mp4'' None) = 0
   \<and> deepfake_score (analyze_video studio_env 5 7 ''missing.mp4'' None) = 0.5
   \<and> analyze_video_try studio_env 5 7 ''clip.mp4'' None = Inr still_result
   \<and> analyze_video studio_env 5 7 ''clip.mp4'' None = still_result
   \<and> frames_analyzed still_result = Some 3"
  using entry_points_return_records
          [of studio_env 5 7 "''missing.mp4''" None
             "ValueError ''zero-size array to reduction operation maximum which has no identity''"
             still_result]
        entry_points_return_records
          [of studio_env 5 7 "''clip.mp4''" None "CvError ''cannot open''" still_result]
        studio_missing studio_run
  by (simp add: still_result_def Let_def)

text \<open>
  C4 as stated fails: the \<^verbatim>\<open>error\<close> record of \<^verbatim>\<open>analyze_video\<close> has no
  \<^verbatim>\<open>frames_analyzed\<close>, and the \<^verbatim>\<open>failed\<close> record of \<^verbatim>\<open>verify_geospatial_authenticity\<close>
  has neither \<^verbatim>\<open>verification_confidence\<close> nor \<^verbatim>\<open>gps_metadata\<close>.
\<close>

theorem results_not_fully_populated:
  "frames_analyzed (analyze_video studio_env 5 7 ''missing.mp4'' None) = None
   \<and> verification_status (verify_geospatial_authenticity studio_env noon ''stream://bad'')
       = ''failed''
   \<and> verification_confidence (verify_geospatial_authenticity studio_env noon ''stream://bad'')
       = None
   \<and> gps_metadata (verify_geospatial_authenticity studio_env noon ''stream://bad'') = None"
  by (simp add: analyze_video_def studio_missing analyze_video_except_def studio_failed
        failed_result_def)

subsection \<open>Rounding error of the fused score in doubles\<close>

lemma pow2_powi: "pow2 e = power_int 2 e"
  by (simp add: pow2_def power_int_def inverse_eq_divide power_one_over)

lemma bit_length_bounds:
  "0 < n \<Longrightarrow> 1 \<le> bit_length n \<and> 2 ^ nat (bit_length n - 1) \<le> n \<and> n < 2 ^ nat (bit_length n)"
proof (induction n rule: bit_length.induct)
  case (1 n)
  have bl: "bit_length n = bit_length (n div 2) + 1"
    using "1.prems" by (subst bit_length.simps) simp
  show ?case
  proof (cases "n = 1")
    case True
    have "bit_length (1 div 2) = 0" by (subst bit_length.simps) simp
    then have "bit_length 1 = 1" by (subst bit_length.simps) simp
    then show ?thesis using True by simp
  next
    case False
    then have m: "0 < n div 2" using "1.prems" by simp
    have nle: "\<not> n \<le> 0" using "1.prems" by simp
    note IH = "1.IH" [OF nle m]
    define b where "b = bit_length (n div 2)"
    have b1: "1 \<le> b" and lo: "2 ^ nat (b - 1) \<le> n div 2" and hi: "n div 2 < 2 ^ nat b"
      using IH by (simp_all add: b_def)
    have e: "(2::int) ^ nat b = 2 * 2 ^ nat (b - 1)"
      using b1 by (metis Suc_nat_eq_nat_zadd1 add.commute diff_add_cancel diff_ge_0_iff_ge power_Suc)
    have e2: "(2::int) ^ nat (b + 1) = 2 * 2 ^ nat b"
      using b1 by (simp add: nat_add_distrib)
    have "2 * (n div 2) \<le> n" by simp
    moreover have "n \<le> 2 * (n div 2) + 1" by presburger
    ultimately have "2 ^ nat b \<le> n" "n < 2 ^ nat (b + 1)"
      using lo hi e e2 by linarith+
    then show ?thesis using b1 by (simp add: bl b_def [symmetric])
  qed
qed

lemma binade_le:
  assumes "x \<noteq> 0"
  shows "pow2 (binade x) \<le> \<bar>x\<bar>"
proof -
  obtain p q where pq: "quotient_of \<bar>x\<bar> = (p, q)" by (cases "quotient_of \<bar>x\<bar>")
  have q: "0 < q" using pq by (rule quotient_of_denom_pos)
  have x: "\<bar>x\<bar> = of_int p / of_int q" using pq by (rule quotient_of_div)
  have "0 < \<bar>x\<bar>" using assms by simp
  then have p: "0 < p" using x q by (simp add: zero_less_divide_iff)
  define e where "e = bit_length p - bit_length q"
  show ?thesis
  proof (cases "pow2 e \<le> \<bar>x\<bar>")
    case True
    then show ?thesis by (simp add: binade_def pq e_def Let_def)
  next
    case False
    then have b: "binade x = e - 1" by (simp add: binade_def pq e_def Let_def)
    have bp: "1 \<le> bit_length p" "2 ^ nat (bit_length p - 1) \<le> p"
      using bit_length_bounds [OF p] by simp_all
    have bq: "1 \<le> bit_length q" "q < 2 ^ nat (bit_length q)"
      using bit_length_bounds [OF q] by simp_all
    have "pow2 (e - 1) = power_int 2 (bit_length p - 1) / power_int 2 (bit_length q)"
      unfolding pow2_powi e_def
      by (metis (no_types, opaque_lifting) add_diff_eq diff_add_eq power_int_diff
            uminus_add_conv_diff zero_neq_numeral)
    also have "power_int (2::rat) (bit_length p - 1) = 2 ^ nat (bit_length p - 1)"
      using bp(1) by (simp add: power_int_def)
    also have "power_int (2::rat) (bit_length q) = 2 ^ nat (bit_length q)"
      using bq(1) by (simp add: power_int_def)
    finally have pe: "pow2 (e - 1) = 2 ^ nat (bit_length p - 1) / 2 ^ nat (bit_length q)" .
    have n1: "(2::rat) ^ nat (bit_length p - 1) \<le> of_int p"
      using bp(2) by (metis of_int_le_iff of_int_numeral of_int_power)
    have n2: "(of_int q :: rat) \<le> 2 ^ nat (bit_length q)"
      using bq(2) by (metis less_imp_le of_int_le_iff of_int_numeral of_int_power)
    have "(2::rat) ^ nat (bit_length p - 1) / 2 ^ nat (bit_length q) \<le> of_int p / of_int q"
      using n1 n2 q p by (intro frac_le) simp_all
    then show ?thesis unfolding b pe x .
  qed
qed

lemma binade_gt:
  assumes "x \<noteq> 0"
  shows "\<bar>x\<bar> < pow2 (binade x + 1)"
proof -
  obtain p q where pq: "quotient_of \<bar>x\<bar> = (p, q)" by (cases "quotient_of \<bar>x\<bar>")
  have q: "0 < q" using pq by (rule quotient_of_denom_pos)
  have x: "\<bar>x\<bar> = of_int p / of_int q" using pq by (rule quotient_of_div)
  have "0 < \<bar>x\<bar>" using assms by simp
  then have p: "0 < p" using x q by (simp add: zero_less_divide_iff)
  define e where "e = bit_length p - bit_length q"
  show ?thesis
  proof (cases "pow2 e \<le> \<bar>x\<bar>")
    case False
    then show ?thesis by (simp add: binade_def pq e_def Let_def)
  next
    case True
    then have b: "binade x = e" by (simp add: binade_def pq e_def Let_def)
    have bp: "1 \<le> bit_length p" "p < 2 ^ nat (bit_length p)"
      using bit_length_bounds [OF p] by simp_all
    have bq: "1 \<le> bit_length q" "2 ^ nat (bit_length q - 1) \<le> q"
      using bit_length_bounds [OF q] by simp_all
    have "pow2 (e + 1) = power_int 2 (bit_length p) / power_int 2 (bit_length q - 1)"
      unfolding pow2_powi e_def
      by (metis (no_types, opaque_lifting) add.commute add_diff_eq diff_diff_eq2
            power_int_diff zero_neq_numeral)
    also have "power_int (2::rat) (bit_length p) = 2 ^ nat (bit_length p)"
      using bp(1) by (simp add: power_int_def)
    also have "power_int (2::rat) (bit_length q - 1) = 2 ^ nat (bit_length q - 1)"
      using bq(1) by (simp add: power_int_def)
    finally have pe: "pow2 (e + 1) = 2 ^ nat (bit_length p) / 2 ^ nat (bit_length q - 1)" .
    have n1: "(of_int p :: rat) < 2 ^ nat (bit_length p)"
      using bp(2) by (metis of_int_less_iff of_int_numeral of_int_power)
    have n2: "(2::rat) ^ nat (bit_length q - 1) \<le> of_int q"
      using bq(2) by (metis of_int_le_iff of_int_numeral of_int_power)
    have "of_int p / of_int q < (2::rat) ^ nat (bit_length p) / 2 ^ nat (bit_length q - 1)"
      using n1 n2 q p by (intro frac_less) simp_all
    then show ?thesis unfolding b pe x .
  qed
qed

lemma round_half_even_err: "\<bar>of_int (round_half_even y) - y\<bar> \<le> 1 / 2"
proof -
  have "of_int \<lfloor>y\<rfloor> \<le> y" "y < of_int \<lfloor>y\<rfloor> + 1" by linarith+
  then show ?thesis
    by (auto simp: round_half_even_def Let_def abs_le_iff)
qed

lemma fl_err:
  assumes "\<bar>x\<bar> \<le> 2"
  shows "\<bar>fl x - x\<bar> \<le> 1 / 2 ^ 52"
proof (cases "x = 0")
  case True
  then show ?thesis by (simp add: fl_def)
next
  case False
  define s where "s = pow2 (binade x - 52)"
  have s0: "0 < s" by (simp add: s_def pow2_powi)
  have "power_int (2::rat) (binade x) \<le> 2"
    using binade_le [OF False] assms by (simp add: pow2_powi)
  then have "power_int (2::rat) (binade x) \<le> power_int 2 1" by simp
  then have "binade x \<le> 1"
    by (rule power_int_le_imp_le_exp [rotated]) simp_all
  then have "binade x - 52 \<le> - 51" by simp
  then have "power_int (2::rat) (binade x - 52) \<le> power_int 2 (- 51)"
    by (intro power_int_increasing) simp_all
  then have s1: "s \<le> 1 / 2 ^ 51"
    by (simp add: s_def pow2_powi power_int_minus inverse_eq_divide)
  have "fl x - x = (of_int (round_half_even (x / s)) - x / s) * s"
    using False s0 by (simp add: fl_def s_def [symmetric] Let_def algebra_simps)
  then have "\<bar>fl x - x\<bar> = \<bar>of_int (round_half_even (x / s)) - x / s\<bar> * s"
    using s0 by (simp add: abs_mult)
  also have "\<dots> \<le> 1 / 2 * s"
    using round_half_even_err [of "x / s"] s0 by (intro mult_right_mono) simp_all
  also have "\<dots> \<le> 1 / 2 * (1 / 2 ^ 51)"
    using s1 by (intro mult_left_mono) simp_all
  finally show ?thesis by simp
qed

lemma ulp_small: "0 \<le> ulp_bound" "ulp_bound \<le> 1 / 1000"
  by (simp_all add: ulp_bound_def)

lemma fl_err': "\<bar>x\<bar> \<le> 2 \<Longrightarrow> \<bar>fl x - x\<bar> \<le> ulp_bound"
  unfolding ulp_bound_def by (rule fl_err)

lemma add_err:
  assumes "\<bar>a' - a\<bar> \<le> ea" "\<bar>b' - b\<bar> \<le> eb" "\<bar>a + b\<bar> \<le> 1" "ea + eb \<le> 1"
  shows "\<bar>f64_add a' b' - (a + b)\<bar> \<le> ea + eb + ulp_bound"
proof -
  have "\<bar>a' + b'\<bar> \<le> 2" using assms by linarith
  then have "\<bar>fl (a' + b') - (a' + b')\<bar> \<le> ulp_bound" by (rule fl_err')
  then show ?thesis unfolding f64_add_def using assms by linarith
qed

lemma sub_err:
  assumes "\<bar>a' - a\<bar> \<le> ea" "\<bar>b' - b\<bar> \<le> eb" "\<bar>a - b\<bar> \<le> 1" "ea + eb \<le> 1"
  shows "\<bar>f64_sub a' b' - (a - b)\<bar> \<le> ea + eb + ulp_bound"
proof -
  have "\<bar>a' - b'\<bar> \<le> 2" using assms by linarith
  then have "\<bar>fl (a' - b') - (a' - b')\<bar> \<le> ulp_bound" by (rule fl_err')
  then show ?thesis unfolding f64_sub_def using assms by linarith
qed

lemma mul_err:
  assumes "\<bar>a' - a\<bar> \<le> ea" "\<bar>b' - b\<bar> \<le> eb" "\<bar>a\<bar> \<le> 1" "\<bar>b\<bar> \<le> 1"
    "ea \<le> 1 / 4" "eb \<le> 1 / 4"
  shows "\<bar>f64_mul a' b' - a * b\<bar> \<le> 2 * ea + eb + ulp_bound"
proof -
  have b': "\<bar>b'\<bar> \<le> 2" using assms by linarith
  have ea0: "0 \<le> ea" and eb0: "0 \<le> eb" using assms(1,2) by linarith+
  have "a' * b' - a * b = (a' - a) * b' + a * (b' - b)" by (simp add: algebra_simps)
  then have "\<bar>a' * b' - a * b\<bar> \<le> \<bar>a' - a\<bar> * \<bar>b'\<bar> + \<bar>a\<bar> * \<bar>b' - b\<bar>"
    by (metis abs_mult abs_triangle_ineq)
  also have "\<bar>a' - a\<bar> * \<bar>b'\<bar> \<le> ea * 2"
    using assms(1) b' ea0 by (intro mult_mono) simp_all
  also have "\<bar>a\<bar> * \<bar>b' - b\<bar> \<le> 1 * eb"
    using assms(2,3) eb0 by (intro mult_mono) simp_all
  finally have d: "\<bar>a' * b' - a * b\<bar> \<le> 2 * ea + eb" by simp
  have "\<bar>a * b\<bar> \<le> 1 * 1"
    unfolding abs_mult using assms(3,4) by (intro mult_mono) simp_all
  then have "\<bar>a' * b'\<bar> \<le> 2" using d assms(5,6) by linarith
  then have "\<bar>fl (a' * b') - a' * b'\<bar> \<le> ulp_bound" by (rule fl_err')
  then show ?thesis unfolding f64_mul_def using d by linarith
qed

lemma lit_err: "\<bar>w\<bar> \<le> 1 \<Longrightarrow> \<bar>fl w - w\<bar> \<le> ulp_bound"
  by (rule fl_err') simp

lemma fused_err:
  assumes "0 \<le> m1" "m1 \<le> 1" "0 \<le> m2" "m2 \<le> 1" "0 \<le> m3" "m3 \<le> 1"
    "0 \<le> m4" "m4 \<le> 1" "0 \<le> m5" "m5 \<le> 1"
  shows "\<bar>fused_f64 m1 m2 m3 m4 m5 - fused_exact m1 m2 m3 m4 m5\<bar> \<le> 26 * ulp_bound"
proof -
  note u = ulp_small
  have s3: "\<bar>f64_sub 1 m3 - (1 - m3)\<bar> \<le> 0 + 0 + ulp_bound"
    using assms by (intro sub_err) simp_all
  have s5: "\<bar>f64_sub 1 m5 - (1 - m5)\<bar> \<le> 0 + 0 + ulp_bound"
    using assms by (intro sub_err) simp_all
  have t1: "\<bar>f64_mul (fl (3 / 10)) m1 - 3 / 10 * m1\<bar> \<le> 2 * ulp_bound + 0 + ulp_bound"
    using assms u by (intro mul_err lit_err) simp_all
  have t2: "\<bar>f64_mul (fl (2 / 10)) m2 - 2 / 10 * m2\<bar> \<le> 2 * ulp_bound + 0 + ulp_bound"
    using assms u by (intro mul_err lit_err) simp_all
  have t3: "\<bar>f64_mul (fl (25 / 100)) (f64_sub 1 m3) - 25 / 100 * (1 - m3)\<bar>
      \<le> 2 * ulp_bound + (0 + 0 + ulp_bound) + ulp_bound"
    using assms u by (intro mul_err lit_err s3) simp_all
  have t4: "\<bar>f64_mul (fl (15 / 100)) m4 - 15 / 100 * m4\<bar> \<le> 2 * ulp_bound + 0 + ulp_bound"
    using assms u by (intro mul_err lit_err) simp_all
  have t5: "\<bar>f64_mul (fl (1 / 10)) (f64_sub 1 m5) - 1 / 10 * (1 - m5)\<bar>
      \<le> 2 * ulp_bound + (0 + 0 + ulp_bound) + ulp_bound"
    using assms u by (intro mul_err lit_err s5) simp_all
  define T1 where "T1 = f64_mul (fl (3 / 10)) m1"
  define T2 where "T2 = f64_mul (fl (2 / 10)) m2"
  define T3 where "T3 = f64_mul (fl (25 / 100)) (f64_sub 1 m3)"
  define T4 where "T4 = f64_mul (fl (15 / 100)) m4"
  define T5 where "T5 = f64_mul (fl (1 / 10)) (f64_sub 1 m5)"
  define x1 where "x1 = 3 / 10 * m1"
  define x2 where "x2 = 2 / 10 * m2"
  define x3 where "x3 = 25 / 100 * (1 - m3)"
  define x4 where "x4 = 15 / 100 * m4"
  define x5 where "x5 = 1 / 10 * (1 - m5)"
  have e1: "\<bar>T1 - x1\<bar> \<le> 3 * ulp_bound" using t1 by (simp add: T1_def x1_def)
  have e2: "\<bar>T2 - x2\<bar> \<le> 3 * ulp_bound" using t2 by (simp add: T2_def x2_def)
  have e3: "\<bar>T3 - x3\<bar> \<le> 4 * ulp_bound" using t3 by (simp add: T3_def x3_def)
  have e4: "\<bar>T4 - x4\<bar> \<le> 3 * ulp_bound" using t4 by (simp add: T4_def x4_def)
  have e5: "\<bar>T5 - x5\<bar> \<le> 4 * ulp_bound" using t5 by (simp add: T5_def x5_def)
  have r1: "0 \<le> x1" "x1 \<le> 3 / 10" using assms by (simp_all add: x1_def)
  have r2: "0 \<le> x2" "x2 \<le> 2 / 10" using assms by (simp_all add: x2_def)
  have r3: "0 \<le> x3" "x3 \<le> 25 / 100" using assms by (simp_all add: x3_def)
  have r4: "0 \<le> x4" "x4 \<le> 15 / 100" using assms by (simp_all add: x4_def)
  have r5: "0 \<le> x5" "x5 \<le> 1 / 10" using assms by (simp_all add: x5_def)
  have z: "\<bar>(0::rat) - 0\<bar> \<le> 0" by simp
  have a1: "\<bar>f64_add 0 T1 - (0 + x1)\<bar> \<le> 0 + 3 * ulp_bound + ulp_bound"
    using r1 u by (intro add_err z e1) simp_all
  have a2: "\<bar>f64_add (f64_add 0 T1) T2 - (0 + x1 + x2)\<bar>
      \<le> (0 + 3 * ulp_bound + ulp_bound) + 3 * ulp_bound + ulp_bound"
    using r1 r2 u by (intro add_err a1 e2) simp_all
  have a3: "\<bar>f64_add (f64_add (f64_add 0 T1) T2) T3 - (0 + x1 + x2 + x3)\<bar>
      \<le> ((0 + 3 * ulp_bound + ulp_bound) + 3 * ulp_bound + ulp_bound) + 4 * ulp_bound
          + ulp_bound"
    using r1 r2 r3 u by (intro add_err a2 e3) simp_all
  have a4: "\<bar>f64_add (f64_add (f64_add (f64_add 0 T1) T2) T3) T4 - (0 + x1 + x2 + x3 + x4)\<bar>
      \<le> (((0 + 3 * ulp_bound + ulp_bound) + 3 * ulp_bound + ulp_bound) + 4 * ulp_bound
          + ulp_bound) + 3 * ulp_bound + ulp_bound"
    using r1 r2 r3 r4 u by (intro add_err a3 e4) simp_all
  have a5: "\<bar>f64_add (f64_add (f64_add (f64_add (f64_add 0 T1) T2) T3) T4) T5
        - (0 + x1 + x2 + x3 + x4 + x5)\<bar>
      \<le> ((((0 + 3 * ulp_bound + ulp_bound) + 3 * ulp_bound + ulp_bound) + 4 * ulp_bound
          + ulp_bound) + 3 * ulp_bound + ulp_bound) + 4 * ulp_bound + ulp_bound"
    using r1 r2 r3 r4 r5 u by (intro add_err a4 e5) simp_all
  have one: "\<bar>(1::rat) - 1\<bar> \<le> 0" by simp
  have fin: "\<bar>f64_sub 1 (f64_add (f64_add (f64_add (f64_add (f64_add 0 T1) T2) T3) T4) T5)
        - (1 - (0 + x1 + x2 + x3 + x4 + x5))\<bar>
      \<le> 0 + (((((0 + 3 * ulp_bound + ulp_bound) + 3 * ulp_bound + ulp_bound)
          + 4 * ulp_bound + ulp_bound) + 3 * ulp_bound + ulp_bound) + 4 * ulp_bound
          + ulp_bound) + ulp_bound"
    using r1 r2 r3 r4 r5 u by (intro sub_err one a5) simp_all
  have "fused_f64 m1 m2 m3 m4 m5 =
      f64_sub 1 (f64_add (f64_add (f64_add (f64_add (f64_add 0 T1) T2) T3) T4) T5)"
    by (simp add: fused_f64_def T1_def T2_def T3_def T4_def T5_def)
  moreover have "fused_exact m1 m2 m3 m4 m5 = 1 - (0 + x1 + x2 + x3 + x4 + x5)"
    by (simp add: fused_exact_def x1_def x2_def x3_def x4_def x5_def)
  ultimately show ?thesis using fin by simp
qed

lemma calc_f64_unfold:
  "calculate_deepfake_score_f64 r =
     fused_f64 (metric_f64 r ''face_consistency'' ''consistency_score'')
       (metric_f64 r ''lighting_consistency'' ''shadow_consistency'')
       (metric_f64 r ''compression_artifacts'' ''mean_artifact_score'')
       (metric_f64 r ''temporal_consistency'' ''motion_consistency'')
       (metric_f64 r ''audio_manipulation'' ''audio_manipulation_score'')"
  by (simp add: calculate_deepfake_score_f64_def weights_f64_def scores_f64_def dict_index_def
        f64_sum_def fused_f64_def metric_f64_def Let_def)

lemma f64_tenth:
  "fl (1 / 10) = 3602879701896397 / 36028797018963968"
  "fl (5 / 10) = 1 / 2"
  "fl (1 / 2) = 1 / 2"
  by code_simp+

lemma metric_f64_audio:
  "metric_f64 ((''audio_manipulation'', detect_audio_manipulation_f64 p) # r)
     ''audio_manipulation'' ''audio_manipulation_score'' = fl (1 / 10)"
  "metric_f64 ((''audio_manipulation'', []) # r)
     ''audio_manipulation'' ''audio_manipulation_score'' = fl (5 / 10)"
  by (simp_all add: metric_f64_def dict_get_def detect_audio_manipulation_f64_def)

lemma metric_f64_video:
  "signal \<noteq> ''audio_manipulation'' \<Longrightarrow>
     metric_f64 ((''audio_manipulation'', rep) # r) signal name = metric_f64 r signal name"
  by (simp add: metric_f64_def dict_get_def)

lemma audio_shift_f64:
  assumes "video_scores_in_unit_interval_f64 q"
  shows "\<bar>calculate_deepfake_score_f64
            ((''audio_manipulation'', detect_audio_manipulation_f64 audio_path) # q)
          - (calculate_deepfake_score_f64 ((''audio_manipulation'', []) # q) - 4 / 100)\<bar>
          \<le> 1 / 10 ^ 12"
    and "calculate_deepfake_score_f64
            ((''audio_manipulation'', detect_audio_manipulation_f64 audio_path) # q)
          < calculate_deepfake_score_f64 ((''audio_manipulation'', []) # q)"
proof -
  define m1 where "m1 = metric_f64 q ''face_consistency'' ''consistency_score''"
  define m2 where "m2 = metric_f64 q ''lighting_consistency'' ''shadow_consistency''"
  define m3 where "m3 = metric_f64 q ''compression_artifacts'' ''mean_artifact_score''"
  define m4 where "m4 = metric_f64 q ''temporal_consistency'' ''motion_consistency''"
  have b: "0 \<le> m1" "m1 \<le> 1" "0 \<le> m2" "m2 \<le> 1" "0 \<le> m3" "m3 \<le> 1" "0 \<le> m4" "m4 \<le> 1"
    using assms by (simp_all add: video_scores_in_unit_interval_f64_def m1_def m2_def m3_def
        m4_def)
  have w: "calculate_deepfake_score_f64
             ((''audio_manipulation'', detect_audio_manipulation_f64 audio_path) # q)
           = fused_f64 m1 m2 m3 m4 (fl (1 / 10))"
    unfolding calc_f64_unfold by (simp add: metric_f64_audio metric_f64_video m1_def m2_def
        m3_def m4_def)
  have o: "calculate_deepfake_score_f64 ((''audio_manipulation'', []) # q)
           = fused_f64 m1 m2 m3 m4 (fl (5 / 10))"
    unfolding calc_f64_unfold by (simp add: metric_f64_audio metric_f64_video m1_def m2_def
        m3_def m4_def)
  define Fw where "Fw = fused_f64 m1 m2 m3 m4 (fl (1 / 10))"
  define Fo where "Fo = fused_f64 m1 m2 m3 m4 (fl (5 / 10))"
  define Ew where "Ew = fused_exact m1 m2 m3 m4 (fl (1 / 10))"
  define Eo where "Eo = fused_exact m1 m2 m3 m4 (fl (5 / 10))"
  have t: "0 \<le> fl (1 / 10)" "fl (1 / 10) \<le> 1" "0 \<le> fl (5 / 10)" "fl (5 / 10) \<le> 1"
    unfolding f64_tenth by simp_all
  have ew: "\<bar>Fw - Ew\<bar> \<le> 26 * ulp_bound"
    unfolding Fw_def Ew_def using b t by (intro fused_err)
  have eo: "\<bar>Fo - Eo\<bar> \<le> 26 * ulp_bound"
    unfolding Fo_def Eo_def using b t by (intro fused_err)
  have "Ew - (Eo - 1 / 25) = - (1 / 10 * (1 / 10 - 3602879701896397 / 36028797018963968))"
    unfolding Ew_def Eo_def fused_exact_def f64_tenth by (simp add: algebra_simps)
  then have d: "\<bar>Ew - (Eo - 1 / 25)\<bar> \<le> 1 / 10000000000000" by simp
  have u: "26 * ulp_bound \<le> 1 / 10000000000000" by (simp add: ulp_bound_def)
  have r: "\<bar>Fw - (Fo - 1 / 25)\<bar> \<le> 3 / 10000000000000"
    using ew eo d u by linarith
  have "\<bar>Fw - (Fo - 4 / 100)\<bar> \<le> 1 / 10 ^ 12" using r by simp
  then show "\<bar>calculate_deepfake_score_f64
            ((''audio_manipulation'', detect_audio_manipulation_f64 audio_path) # q)
          - (calculate_deepfake_score_f64 ((''audio_manipulation'', []) # q) - 4 / 100)\<bar>
          \<le> 1 / 10 ^ 12"
    unfolding w o Fw_def Fo_def .
  have "Fw < Fo" using r by linarith
  then show "calculate_deepfake_score_f64
            ((''audio_manipulation'', detect_audio_manipulation_f64 audio_path) # q)
          < calculate_deepfake_score_f64 ((''audio_manipulation'', []) # q)"
    unfolding w o Fw_def Fo_def .
qed

lemma f64_audio_scores:
  "calculate_deepfake_score_f64
     [(''audio_manipulation'', detect_audio_manipulation_f64 ''voice.wav'')] =
     517913957147607 / 1125899906842624"
  "calculate_deepfake_score_f64 [(''audio_manipulation'', [])] = 1 / 2"
  "calculate_deepfake_score_f64
     ((''audio_manipulation'', detect_audio_manipulation_f64 ''voice.wav'')
        # steady_indicators_f64) =
     45035996273705 / 4503599627370496"
  "calculate_deepfake_score_f64 ((''audio_manipulation'', []) # steady_indicators_f64) =
     450359962737049 / 9007199254740992"
  by code_simp+

lemma f64_audio_shifts:
  "f64_sub (1 / 2) (517913957147607 / 1125899906842624) = 45035996273705 / 1125899906842624"
  "f64_sub (450359962737049 / 9007199254740992) (45035996273705 / 4503599627370496) =
     360287970189639 / 9007199254740992"
  "fl (4 / 100) = 5764607523034235 / 144115188075855872"
  by code_simp+

lemma audio_shift_real:
  "calculate_deepfake_score ((''audio_manipulation'', detect_audio_manipulation audio_path) # r)
     = calculate_deepfake_score ((''audio_manipulation'', []) # r) - 0.04"
  unfolding calc_unfold by (simp add: detect_audio_manipulation_def dict_get_def)

text \<open>
  C10, as amended. \<^verbatim>\<open>detect_audio_manipulation\<close> returns the same report for every path.
  In the fused score the entry of the audio signal is then 1 - 0.1, where the empty report
  of a run without audio gives 1 - 0.5, under the weight 0.1. With the four video scores in
  [0,1], the deepfake score with audio is lower than the score without, by 0.04 up to
  rounding: exactly 0.04 in exact arithmetic, in \<^verbatim>\<open>calculate_deepfake_score\<close> and in every
  completed run of \<^verbatim>\<open>analyze_video\<close>, and within \<open>10\<^sup>-\<^sup>1\<^sup>2\<close> of 0.04 in doubles, where
  the two scores differ by 0.040000000000000036 when no video report is present and by
  0.039999999999999925 when the consistency scores are 1 and the artifact score 0.
\<close>

theorem audio_stub_constant_shift:
  "detect_audio_manipulation audio_path =
     [(''audio_manipulation_score'', 0.1), (''voice_consistency'', 0.9), (''audio_quality'', 0.8)]
   \<and> detect_audio_manipulation audio_path = detect_audio_manipulation audio_path'
   \<and> dict_index (scores ((''audio_manipulation'', detect_audio_manipulation audio_path) # r))
        ''audio_manipulation'' = 1 - 0.1
   \<and> dict_index (scores ((''audio_manipulation'', []) # r)) ''audio_manipulation'' = 1 - 0.5
   \<and> dict_index weights ''audio_manipulation'' = 0.1
   \<and> (video_scores_in_unit_interval r \<longrightarrow>
        \<bar>calculate_deepfake_score
            ((''audio_manipulation'', detect_audio_manipulation audio_path) # r)
          - (calculate_deepfake_score ((''audio_manipulation'', []) # r) - 0.04)\<bar>
          \<le> 1 / 10 ^ 12
        \<and> calculate_deepfake_score
            ((''audio_manipulation'', detect_audio_manipulation audio_path) # r)
          < calculate_deepfake_score ((''audio_manipulation'', []) # r))
   \<and> (audio_supplied env (Some a)
        \<and> analyze_video_try env start_time end_time video_path None = Inr r0
        \<and> video_scores_in_unit_interval (manipulation_indicators r0) \<longrightarrow>
        (\<exists>r1. analyze_video_try env start_time end_time video_path (Some a) = Inr r1
              \<and> \<bar>deepfake_score r1 - (deepfake_score r0 - 0.04)\<bar> \<le> 1 / 10 ^ 12
              \<and> deepfake_score r1 < deepfake_score r0))
   \<and> (video_scores_in_unit_interval_f64 q \<longrightarrow>
        \<bar>calculate_deepfake_score_f64
            ((''audio_manipulation'', detect_audio_manipulation_f64 audio_path) # q)
          - (calculate_deepfake_score_f64 ((''audio_manipulation'', []) # q) - 4 / 100)\<bar>
          \<le> 1 / 10 ^ 12
        \<and> calculate_deepfake_score_f64
            ((''audio_manipulation'', detect_audio_manipulation_f64 audio_path) # q)
          < calculate_deepfake_score_f64 ((''audio_manipulation'', []) # q))
   \<and> f64_sub (calculate_deepfake_score_f64 [(''audio_manipulation'', [])])
        (calculate_deepfake_score_f64
           [(''audio_manipulation'', detect_audio_manipulation_f64 ''voice.wav'')])
      = 45035996273705 / 1125899906842624
   \<and> \<bar>45035996273705 / 1125899906842624 - 4 / 100 :: rat\<bar> \<le> 1 / 10 ^ 15
   \<and> f64_sub (calculate_deepfake_score_f64
                ((''audio_manipulation'', []) # steady_indicators_f64))
        (calculate_deepfake_score_f64
           ((''audio_manipulation'', detect_audio_manipulation_f64 ''voice.wav'')
              # steady_indicators_f64))
      = 360287970189639 / 9007199254740992
   \<and> \<bar>360287970189639 / 9007199254740992 - 4 / 100 :: rat\<bar> \<le> 1 / 10 ^ 15"
proof (intro conjI impI)
  show "detect_audio_manipulation audio_path =
     [(''audio_manipulation_score'', 0.1), (''voice_consistency'', 0.9), (''audio_quality'', 0.8)]"
    and "detect_audio_manipulation audio_path = detect_audio_manipulation audio_path'"
    by (simp_all add: detect_audio_manipulation_def)
  show "dict_index (scores ((''audio_manipulation'', detect_audio_manipulation audio_path) # r))
        ''audio_manipulation'' = 1 - 0.1"
    by (simp add: scores_def dict_index_def dict_get_def detect_audio_manipulation_def)
  show "dict_index (scores ((''audio_manipulation'', []) # r)) ''audio_manipulation'' = 1 - 0.5"
    by (simp add: scores_def dict_index_def dict_get_def)
  show "dict_index weights ''audio_manipulation'' = 0.1"
    by (simp add: weights_def dict_index_def)
next
  show "\<bar>calculate_deepfake_score
            ((''audio_manipulation'', detect_audio_manipulation audio_path) # r)
          - (calculate_deepfake_score ((''audio_manipulation'', []) # r) - 0.04)\<bar>
          \<le> 1 / 10 ^ 12"
    and "calculate_deepfake_score
            ((''audio_manipulation'', detect_audio_manipulation audio_path) # r)
          < calculate_deepfake_score ((''audio_manipulation'', []) # r)"
    by (simp_all add: audio_shift_real [of audio_path r])
next
  assume h: "audio_supplied env (Some a)
        \<and> analyze_video_try env start_time end_time video_path None = Inr r0
        \<and> video_scores_in_unit_interval (manipulation_indicators r0)"
  then have run: "analyze_video_try env start_time end_time video_path None = Inr r0"
    and sup: "audio_supplied env (Some a)" by simp_all
  have nosup: "\<not> audio_supplied env None" by (simp add: audio_supplied_def)
  obtain frames where f: "extract_frames env video_path 100 = Inr frames"
    using run by (cases "extract_frames env video_path 100")
      (simp_all add: analyze_video_try_def)
  obtain comp where c: "analyze_compression_artifacts env frames = Inr comp"
    using run f by (cases "analyze_compression_artifacts env frames")
      (simp_all add: analyze_video_try_def)
  define base where "base = (\<lambda>audio. [(''face_consistency'', analyze_face_consistency env frames),
                        (''lighting_consistency'', analyze_lighting_consistency env frames),
                        (''compression_artifacts'', comp),
                        (''temporal_consistency'', analyze_temporal_consistency env frames),
                        (''audio_manipulation'', audio)])"
  have s0: "deepfake_score r0 = calculate_deepfake_score (base [])"
    using run f c nosup by (auto simp: analyze_video_try_def Let_def base_def)
  obtain r1 where r1: "analyze_video_try env start_time end_time video_path (Some a) = Inr r1"
    using f c by (simp add: analyze_video_try_def Let_def)
  have s1: "deepfake_score r1 = calculate_deepfake_score (base (detect_audio_manipulation a))"
    using r1 f c sup by (auto simp: analyze_video_try_def Let_def base_def)
  have "calculate_deepfake_score (base (detect_audio_manipulation a))
          = calculate_deepfake_score (base []) - 0.04"
    unfolding calc_unfold base_def by (simp add: detect_audio_manipulation_def dict_get_def)
  then have "deepfake_score r1 = deepfake_score r0 - 0.04" using s0 s1 by simp
  then show "\<exists>r1. analyze_video_try env start_time end_time video_path (Some a) = Inr r1
              \<and> \<bar>deepfake_score r1 - (deepfake_score r0 - 0.04)\<bar> \<le> 1 / 10 ^ 12
              \<and> deepfake_score r1 < deepfake_score r0"
    using r1 by simp
next
  assume q: "video_scores_in_unit_interval_f64 q"
  show "\<bar>calculate_deepfake_score_f64
            ((''audio_manipulation'', detect_audio_manipulation_f64 audio_path) # q)
          - (calculate_deepfake_score_f64 ((''audio_manipulation'', []) # q) - 4 / 100)\<bar>
          \<le> 1 / 10 ^ 12"
    by (rule audio_shift_f64(1) [OF q])
  show "calculate_deepfake_score_f64
            ((''audio_manipulation'', detect_audio_manipulation_f64 audio_path) # q)
          < calculate_deepfake_score_f64 ((''audio_manipulation'', []) # q)"
    by (rule audio_shift_f64(2) [OF q])
next
  show "f64_sub (calculate_deepfake_score_f64 [(''audio_manipulation'', [])])
        (calculate_deepfake_score_f64
           [(''audio_manipulation'', detect_audio_manipulation_f64 ''voice.wav'')])
      = 45035996273705 / 1125899906842624"
    unfolding f64_audio_scores by (rule f64_audio_shifts(1))
  show "f64_sub (calculate_deepfake_score_f64
                ((''audio_manipulation'', []) # steady_indicators_f64))
        (calculate_deepfake_score_f64
           ((''audio_manipulation'', detect_audio_manipulation_f64 ''voice.wav'')
              # steady_indicators_f64))
      = 360287970189639 / 9007199254740992"
    unfolding f64_audio_scores by (rule f64_audio_shifts(2))
qed simp_all

lemma studio_audio: "audio_supplied studio_env (Some ''voice.wav'')"
  by (simp add: audio_supplied_def studio_env_def)

lemma still_bounded: "video_scores_in_unit_interval still_indicators"
  by (simp add: video_scores_in_unit_interval_def still_metrics)

lemma steady_bounded: "video_scores_in_unit_interval_f64 steady_indicators_f64"
  by (simp add: video_scores_in_unit_interval_f64_def metric_f64_def dict_get_def
        steady_indicators_f64_def)

theorem audio_stub_constant_shift_witness:
  "video_scores_in_unit_interval still_indicators
   \<and> video_scores_in_unit_interval_f64 steady_indicators_f64
   \<and> calculate_deepfake_score_f64
        ((''audio_manipulation'', detect_audio_manipulation_f64 ''voice.wav'')
           # steady_indicators_f64)
      < calculate_deepfake_score_f64 ((''audio_manipulation'', []) # steady_indicators_f64)
   \<and> audio_supplied studio_env (Some ''voice.wav'')
   \<and> analyze_video_try studio_env 5 7 ''clip.mp4'' None = Inr still_result
   \<and> (\<exists>r1. analyze_video_try studio_env 5 7 ''clip.mp4'' (Some ''voice.wav'') = Inr r1
          \<and> deepfake_score r1 < deepfake_score still_result)
   \<and> calculate_deepfake_score
        ((''audio_manipulation'', detect_audio_manipulation ''voice.wav'') # still_indicators)
      < calculate_deepfake_score ((''audio_manipulation'', []) # still_indicators)"
  using audio_stub_constant_shift
          [of "''voice.wav''" "''voice.wav''" still_indicators studio_env "''voice.wav''" 5 7
              "''clip.mp4''" still_result steady_indicators_f64]
        studio_audio studio_run still_bounded steady_bounded
  by (auto simp: still_result_def)

text \<open>
  C10 as stated fails in the doubles of the source: the score with the audio report is not
  lower by the double 0.04, and the difference changes with the other terms.
\<close>

theorem audio_shift_counterexample:
  "f64_sub (calculate_deepfake_score_f64 [(''audio_manipulation'', [])])
     (calculate_deepfake_score_f64
        [(''audio_manipulation'', detect_audio_manipulation_f64 ''voice.wav'')])
   \<noteq> fl (4 / 100)
   \<and> f64_sub (calculate_deepfake_score_f64
                ((''audio_manipulation'', []) # steady_indicators_f64))
        (calculate_deepfake_score_f64
           ((''audio_manipulation'', detect_audio_manipulation_f64 ''voice.wav'')
              # steady_indicators_f64))
      \<noteq> fl (4 / 100)
   \<and> f64_sub (calculate_deepfake_score_f64 [(''audio_manipulation'', [])])
        (calculate_deepfake_score_f64
           [(''audio_manipulation'', detect_audio_manipulation_f64 ''voice.wav'')])
      \<noteq> f64_sub (calculate_deepfake_score_f64
                  ((''audio_manipulation'', []) # steady_indicators_f64))
          (calculate_deepfake_score_f64
             ((''audio_manipulation'', detect_audio_manipulation_f64 ''voice.wav'')
                # steady_indicators_f64))"
  unfolding f64_audio_scores f64_audio_shifts by simp

end
